theory Spec2Isabelle
  imports Main
begin

section \<open>Values on the wire\<close>

text \<open>
  The handlers answer with \<^verbatim>\<open>res.status(n).json(obj)\<close>. A response is the status
  code and the JSON value; two responses are byte-identical exactly when both agree.
\<close>

datatype json =
    JNull
  | JBool bool
  | JNum int
  | JStr string
  | JArr "json list"
  | JObj "(string \<times> json) list"

record response =
  status :: nat
  body :: json

definition respond :: "nat \<Rightarrow> json \<Rightarrow> response" where
  "respond n j = \<lparr>status = n, body = j\<rparr>"

text \<open>Every property name that occurs anywhere inside a JSON value.\<close>

primrec json_keys :: "json \<Rightarrow> string list" where
  "json_keys JNull = []"
| "json_keys (JBool b) = []"
| "json_keys (JNum n) = []"
| "json_keys (JStr s) = []"
| "json_keys (JArr js) = concat (map json_keys js)"
| "json_keys (JObj kvs) =
     concat (map (\<lambda>kv. fst kv # snd kv) (map (map_prod id json_keys) kvs))"

text \<open>\<^verbatim>\<open>obj[k]\<close> on an object literal; \<^verbatim>\<open>undefined\<close> is \<open>None\<close>.\<close>

definition field :: "string \<Rightarrow> json \<Rightarrow> json option" where
  "field k j = (case j of JObj kvs \<Rightarrow> map_of kvs k | _ \<Rightarrow> None)"

section \<open>Strings\<close>

text \<open>
  \<^verbatim>\<open>String.prototype.trim\<close>, \<^verbatim>\<open>toLowerCase\<close>, \<^verbatim>\<open>startsWith\<close> and
  \<^verbatim>\<open>Array.prototype.join\<close> on byte strings: the ASCII white space and the ASCII
  letters are the ones the model knows. An upper-case and a lower-case ASCII letter
  differ in one bit of the code (32), which the case conversions set or clear.
\<close>

definition isSpace :: "char \<Rightarrow> bool" where
  "isSpace c = (c = CHR '' '' \<or> c = CHR 0x09 \<or> c = CHR 0x0A \<or> c = CHR 0x0B
     \<or> c = CHR 0x0C \<or> c = CHR 0x0D)"

definition trim :: "string \<Rightarrow> string" where
  "trim s = rev (dropWhile isSpace (rev (dropWhile isSpace s)))"

definition toLowerChar :: "char \<Rightarrow> char" where
  "toLowerChar c =
     (let n = (of_char c :: nat) in
        if 65 \<le> n \<and> n \<le> 90
        then (case c of Char b0 b1 b2 b3 b4 b5 b6 b7 \<Rightarrow> Char b0 b1 b2 b3 b4 True b6 b7)
        else c)"

definition toUpperChar :: "char \<Rightarrow> char" where
  "toUpperChar c =
     (let n = (of_char c :: nat) in
        if 97 \<le> n \<and> n \<le> 122
        then (case c of Char b0 b1 b2 b3 b4 b5 b6 b7 \<Rightarrow> Char b0 b1 b2 b3 b4 False b6 b7)
        else c)"

definition toLowerCase :: "string \<Rightarrow> string" where
  "toLowerCase s = map toLowerChar s"

definition startsWith :: "string \<Rightarrow> string \<Rightarrow> bool" where
  "startsWith s p = (take (length p) s = p)"

fun join :: "string \<Rightarrow> string list \<Rightarrow> string" where
  "join sep [] = []"
| "join sep [x] = x"
| "join sep (x # y # ys) = x @ sep @ join sep (y # ys)"

section \<open>Store identifiers\<close>

text \<open>
  Modelled from the spec: the document store's identifier syntax is not under src/ (it is
  the driver's). An identifier is kept as its canonical text, 24 lower-case hexadecimal
  digits; casting a string succeeds exactly on 24 hexadecimal digits of either case and
  yields the canonical text. A failed cast is the store's "malformed id" signal, the
  error named \<^verbatim>\<open>CastError\<close>.
\<close>

type_synonym objectid = string

definition isHexDigit :: "char \<Rightarrow> bool" where
  "isHexDigit c =
     (let n = (of_char c :: nat) in
        (48 \<le> n \<and> n \<le> 57) \<or> (65 \<le> n \<and> n \<le> 70) \<or> (97 \<le> n \<and> n \<le> 102))"

definition castObjectId :: "string \<Rightarrow> objectid option" where
  "castObjectId s =
     (if length s = 24 \<and> list_all isHexDigit s then Some (toLowerCase s) else None)"

section \<open>Errors and the centralized error handler\<close>

text \<open>
  A thrown JavaScript error, with the properties \<^verbatim>\<open>errorHandler\<close> reads:
  \<^verbatim>\<open>name\<close>, \<^verbatim>\<open>message\<close>, \<^verbatim>\<open>code\<close>, \<^verbatim>\<open>keyValue\<close>,
  \<^verbatim>\<open>errors\<close> (path and message of each failed validator), \<^verbatim>\<open>statusCode\<close> and
  \<^verbatim>\<open>stack\<close> (its first line, \<^verbatim>\<open>name: message\<close>; the frames are the runtime's).
  The wording of the messages the store's driver writes itself (a failed cast, a
  duplicate key) is indicative only: no handler branches on it, and it reaches a
  response only inside the stack of development mode.
\<close>

record error =
  err_name :: string
  err_message :: string
  err_code :: "nat option"
  err_keyValue :: "(string \<times> json) list"
  err_errors :: "(string \<times> string) list"
  err_statusCode :: "nat option"
  err_stack :: string

definition mkError :: "string \<Rightarrow> string \<Rightarrow> error" where
  "mkError n m =
     \<lparr>err_name = n, err_message = m, err_code = None, err_keyValue = [], err_errors = [],
      err_statusCode = None, err_stack = n @ '': '' @ m\<rparr>"

definition CastError :: "string \<Rightarrow> string \<Rightarrow> string \<Rightarrow> error" where
  "CastError v path model =
     mkError ''CastError''
       (''Cast to ObjectId failed for value \"'' @ v @ ''\" (type string) at path \"'' @ path
          @ ''\" for model \"'' @ model @ ''\"'')"

definition ValidationError :: "string \<Rightarrow> (string \<times> string) list \<Rightarrow> error" where
  "ValidationError model errs =
     (mkError ''ValidationError''
        (model @ '' validation failed: '' @ join '', '' (map (\<lambda>(p, m). p @ '': '' @ m) errs)))
       \<lparr>err_errors := errs\<rparr>"

definition DuplicateKeyError :: "string \<Rightarrow> string \<Rightarrow> error" where
  "DuplicateKeyError path v =
     (mkError ''MongoServerError''
        (''E11000 duplicate key error dup key: { '' @ path @ '': \"'' @ v @ ''\" }''))
       \<lparr>err_code := Some 11000, err_keyValue := [(path, JStr v)]\<rparr>"

text \<open>The process environment, as far as the source reads it.\<close>

record env =
  env_JWT_SECRET :: "string option"
  env_NODE_ENV :: "string option"

text \<open>
  \<^verbatim>\<open>errorHandler\<close> (middleware/errorHandler.js). The working copy \<^verbatim>\<open>error\<close> is the
  pair of its message and its status code; the five tests run one after the other, each
  overwriting the copy, as in the source. A duplicate-key error with an empty
  \<^verbatim>\<open>keyValue\<close> makes \<^verbatim>\<open>field.charAt\<close> throw inside the handler, which the
  framework answers with a bare 500.
\<close>

definition capitalize :: "string \<Rightarrow> string" where
  "capitalize s = (case s of [] \<Rightarrow> [] | c # cs \<Rightarrow> toUpperChar c # cs)"

definition errorHandler :: "env \<Rightarrow> error \<Rightarrow> response" where
  "errorHandler e err =
     (if err_code err = Some 11000 \<and> err_keyValue err = []
      then respond 500 (JStr ''Internal Server Error'')
      else
        let error0 = (err_message err, err_statusCode err);
            error1 = (if err_name err = ''CastError''
                      then (''Resource not found'', Some 404) else error0);
            error2 = (if err_code err = Some 11000
                      then (capitalize (fst (hd (err_keyValue err))) @ '' already exists'',
                            Some 400)
                      else error1);
            error3 = (if err_name err = ''ValidationError''
                      then (join '', '' (map snd (err_errors err)), Some 400) else error2);
            error4 = (if err_name err = ''JsonWebTokenError''
                      then (''Invalid token'', Some 401) else error3);
            error5 = (if err_name err = ''TokenExpiredError''
                      then (''Token expired'', Some 401) else error4)
        in respond (case snd error5 of None \<Rightarrow> 500 | Some c \<Rightarrow> if c = 0 then 500 else c)
             (JObj ([(''success'', JBool False),
                     (''error'', JStr (if fst error5 = [] then ''Server Error'' else fst error5))]
                    @ (if env_NODE_ENV e = Some ''development''
                       then [(''stack'', JStr (err_stack err))] else []))))"

text \<open>The body every handler sends when \<^verbatim>\<open>validationResult(req)\<close> is not empty.\<close>

definition validationFailed :: "json list \<Rightarrow> response" where
  "validationFailed errors =
     respond 400 (JObj [(''error'', JStr ''Validation failed''), (''details'', JArr errors)])"

section \<open>Password hasher\<close>

text \<open>
  Modelled from the spec: the hashing library is not under src/. A digest records the
  salt and the plaintext it was made from (an ideal one-way hash: no two inputs share a
  digest); \<open>bcrypt_compare\<close> is true iff the plaintext, hashed with the digest's
  embedded salt, equals the digest. The fresh salt of \<^verbatim>\<open>genSalt\<close> is an input.
\<close>

datatype digest = Digest nat string

definition bcrypt_hash :: "string \<Rightarrow> nat \<Rightarrow> digest" where
  "bcrypt_hash plaintext salt = Digest salt plaintext"

primrec digest_salt :: "digest \<Rightarrow> nat" where
  "digest_salt (Digest salt plaintext) = salt"

definition bcrypt_compare :: "string \<Rightarrow> digest \<Rightarrow> bool" where
  "bcrypt_compare plaintext d = (bcrypt_hash plaintext (digest_salt d) = d)"

section \<open>Session token codec\<close>

text \<open>
  Modelled from the spec: the token library is not under src/. A token carries the user
  identity, the issued-at and the expiry time in seconds, and is signed with a key; the
  signature is ideal (it verifies under a secret iff that secret is the signing key).
  How a token is written as a string, and read back, is the library's: the two functions
  are parameters. The regular expression of the user schema's \<^verbatim>\<open>match\<close> validator is
  a parameter as well.
\<close>

record jwt =
  jwt_userId :: string
  jwt_iat :: nat
  jwt_exp :: nat
  jwt_key :: string

record lib =
  jwt_encode :: "jwt \<Rightarrow> string"
  jwt_decode :: "string \<Rightarrow> jwt option"
  email_pattern :: "string \<Rightarrow> bool"

text \<open>
  \<^verbatim>\<open>jwt.sign(payload, secret, { expiresIn })\<close>: the clock is read in milliseconds and
  floored to seconds at issuance; the expiry is that instant plus the lifetime.
\<close>

definition jwt_sign :: "lib \<Rightarrow> nat \<Rightarrow> string \<Rightarrow> string \<Rightarrow> nat \<Rightarrow> string" where
  "jwt_sign l clock uid secret expiresIn =
     jwt_encode l \<lparr>jwt_userId = uid, jwt_iat = clock div 1000,
                   jwt_exp = clock div 1000 + expiresIn, jwt_key = secret\<rparr>"

text \<open>
  \<^verbatim>\<open>jwt.verify(token, secret)\<close>: the structure, then the signature, then the expiry.
  The token is expired once the clock has reached the second \<open>exp\<close>.
\<close>

definition jwt_verify :: "lib \<Rightarrow> nat \<Rightarrow> string \<Rightarrow> string \<Rightarrow> error + jwt" where
  "jwt_verify l clock token secret =
     (case jwt_decode l token of
        None \<Rightarrow> Inl (mkError ''JsonWebTokenError'' ''jwt malformed'')
      | Some decoded \<Rightarrow>
          if jwt_key decoded \<noteq> secret
          then Inl (mkError ''JsonWebTokenError'' ''invalid signature'')
          else if jwt_exp decoded \<le> clock div 1000
          then Inl (mkError ''TokenExpiredError'' ''jwt expired'')
          else Inr decoded)"

text \<open>\<^verbatim>\<open>process.env.JWT_SECRET || '...'\<close>, once in routes/auth.js and once in
  middleware/auth.js: the empty string is falsy too.\<close>

definition JWT_SECRET_routes :: "env \<Rightarrow> string" where
  "JWT_SECRET_routes e =
     (case env_JWT_SECRET e of
        None \<Rightarrow> ''your-secret-key-change-in-production''
      | Some s \<Rightarrow> if s = [] then ''your-secret-key-change-in-production'' else s)"

definition JWT_SECRET_middleware :: "env \<Rightarrow> string" where
  "JWT_SECRET_middleware e =
     (case env_JWT_SECRET e of
        None \<Rightarrow> ''your-secret-key-change-in-production''
      | Some s \<Rightarrow> if s = [] then ''your-secret-key-change-in-production'' else s)"

text \<open>\<^verbatim>\<open>generateToken\<close> (routes/auth.js); \<^verbatim>\<open>'7d'\<close> is 7 days in seconds.\<close>

definition generateToken :: "lib \<Rightarrow> env \<Rightarrow> nat \<Rightarrow> objectid \<Rightarrow> string" where
  "generateToken l e clock userId =
     jwt_sign l clock userId (JWT_SECRET_routes e) (7 * 24 * 60 * 60)"

section \<open>Credential store\<close>

text \<open>
  A stored user (models/User.js): \<open>u_password\<close> is the hash, never the plaintext. A
  query returns a document; the \<^verbatim>\<open>password\<close> path has \<^verbatim>\<open>select: false\<close>, so a
  document carries it only when the query asked with \<^verbatim>\<open>select('+password')\<close>. The
  collection is the list of users in the order the store visits them.
\<close>

record user =
  u_id :: objectid
  u_username :: string
  u_email :: string
  u_password :: digest
  u_createdAt :: nat
  u_updatedAt :: nat

record user_doc =
  d_id :: objectid
  d_username :: string
  d_email :: string
  d_password :: "digest option"
  d_createdAt :: nat
  d_updatedAt :: nat

definition select_default :: "user \<Rightarrow> user_doc" where
  "select_default u =
     \<lparr>d_id = u_id u, d_username = u_username u, d_email = u_email u, d_password = None,
      d_createdAt = u_createdAt u, d_updatedAt = u_updatedAt u\<rparr>"

definition select_plus_password :: "user \<Rightarrow> user_doc" where
  "select_plus_password u = (select_default u)\<lparr>d_password := Some (u_password u)\<rparr>"

text \<open>\<^verbatim>\<open>User.findById(id)\<close>: the id is cast first, and a failed cast is thrown.\<close>

definition User_findById :: "user list \<Rightarrow> string \<Rightarrow> error + user_doc option" where
  "User_findById us i =
     (case castObjectId i of
        None \<Rightarrow> Inl (CastError i ''_id'' ''User'')
      | Some oid \<Rightarrow> Inr (map_option select_default (find (\<lambda>u. u_id u = oid) us)))"

text \<open>
  Modelled from the spec: which of several matching records the store returns for
  \<^verbatim>\<open>User.findOne({ $or: [{ email }, { username }] })\<close> is the store's choice and is
  not under src/. The spec describes the disjunctive query as first-match-wins, the
  email clause before the username clause: the answer is the first user with this
  email if there is one, otherwise the first user with this username.
\<close>

definition User_findOne_or :: "user list \<Rightarrow> string \<Rightarrow> string \<Rightarrow> user_doc option" where
  "User_findOne_or us mail uname =
     map_option select_default
       (case find (\<lambda>u. u_email u = mail) us of
          Some u \<Rightarrow> Some u
        | None \<Rightarrow> find (\<lambda>u. u_username u = uname) us)"

text \<open>\<^verbatim>\<open>User.findOne({ email }).select('+password')\<close>.\<close>

definition User_findOne_email :: "user list \<Rightarrow> string \<Rightarrow> user_doc option" where
  "User_findOne_email us mail =
     map_option select_plus_password (find (\<lambda>u. u_email u = mail) us)"

text \<open>\<^verbatim>\<open>typeof\<close> of a value that arrived as JSON.\<close>

primrec typeof :: "json \<Rightarrow> string" where
  "typeof JNull = ''object''"
| "typeof (JBool b) = ''boolean''"
| "typeof (JNum n) = ''number''"
| "typeof (JStr s) = ''string''"
| "typeof (JArr js) = ''object''"
| "typeof (JObj kvs) = ''object''"

text \<open>
  \<^verbatim>\<open>userSchema.methods.comparePassword\<close>, that is \<^verbatim>\<open>bcrypt.compare\<close> on the
  candidate and \<^verbatim>\<open>this.password\<close>: the library compares two strings and throws
  \<^verbatim>\<open>Illegal arguments\<close> when the candidate is not a string, or when the document was
  read without the password path and it is handed \<^verbatim>\<open>undefined\<close>.
\<close>

definition comparePassword :: "user_doc \<Rightarrow> json \<Rightarrow> error + bool" where
  "comparePassword d candidatePassword =
     (case (candidatePassword, d_password d) of
        (JStr plaintext, Some h) \<Rightarrow> Inr (bcrypt_compare plaintext h)
      | (_, Some h) \<Rightarrow>
          Inl (mkError ''Error''
                 (''Illegal arguments: '' @ typeof candidatePassword @ '', string''))
      | (_, None) \<Rightarrow>
          Inl (mkError ''Error''
                 (''Illegal arguments: '' @ typeof candidatePassword @ '', undefined'')))"

text \<open>
  The validators of \<^verbatim>\<open>userSchema\<close>, path by path in the order of the schema, each
  path stopping at its first failure; an empty list means the document is valid.
\<close>

definition userSchema_validate :: "lib \<Rightarrow> string \<Rightarrow> string \<Rightarrow> string \<Rightarrow> (string \<times> string) list"
  where
  "userSchema_validate l uname mail pw =
     (if uname = [] then [(''username'', ''Username is required'')]
      else if length uname < 3
      then [(''username'', ''Username must be at least 3 characters long'')]
      else if 30 < length uname
      then [(''username'', ''Username cannot exceed 30 characters'')]
      else [])
     @ (if mail = [] then [(''email'', ''Email is required'')]
        else if \<not> email_pattern l mail
        then [(''email'', ''Please provide a valid email address'')]
        else [])
     @ (if pw = [] then [(''password'', ''Password is required'')]
        else if length pw < 6
        then [(''password'', ''Password must be at least 6 characters long'')]
        else [])"

text \<open>
  \<^verbatim>\<open>new User({ username, email, password })\<close> followed by \<^verbatim>\<open>user.save()\<close>: the
  schema's setters (trim, lowercase), its validators, the pre-save hook that replaces
  the plaintext by its hash, then the insert under the two unique indexes. The new
  identifier, the salt and the clock are inputs.
\<close>

definition User_save ::
  "lib \<Rightarrow> nat \<Rightarrow> objectid \<Rightarrow> nat \<Rightarrow> user list \<Rightarrow> string \<Rightarrow> string \<Rightarrow> string
     \<Rightarrow> error + (user \<times> user list)" where
  "User_save l clock new_id salt us uname0 mail0 pw =
     (let uname = trim uname0;
          mail = trim (toLowerCase mail0);
          errs = userSchema_validate l uname mail pw
      in if errs \<noteq> [] then Inl (ValidationError ''User'' errs)
         else if list_ex (\<lambda>x. u_username x = uname) us
         then Inl (DuplicateKeyError ''username'' uname)
         else if list_ex (\<lambda>x. u_email x = mail) us
         then Inl (DuplicateKeyError ''email'' mail)
         else
           let u = \<lparr>u_id = new_id, u_username = uname, u_email = mail,
                    u_password = bcrypt_hash pw salt,
                    u_createdAt = clock, u_updatedAt = clock\<rparr>
           in Inr (u, us @ [u]))"

section \<open>Registration and login (routes/auth.js)\<close>

text \<open>
  A handler is modelled as the function the route registers last: it receives the
  result of \<^verbatim>\<open>validationResult(req)\<close> (the list \<^verbatim>\<open>errors.array()\<close>, computed by the
  validation layer that runs before it) and the request body as that layer left it.
\<close>

record register_body =
  rb_username :: string
  rb_email :: string
  rb_password :: string

text \<open>
  The login route validates the password with \<^verbatim>\<open>notEmpty\<close> only, which a JSON
  number or boolean passes unchanged: the password of a login body is any JSON value.
\<close>

record login_body =
  lb_email :: string
  lb_password :: json

definition userProjection :: "objectid \<Rightarrow> string \<Rightarrow> string \<Rightarrow> json" where
  "userProjection i uname mail =
     JObj [(''id'', JStr i), (''username'', JStr uname), (''email'', JStr mail)]"

definition register ::
  "lib \<Rightarrow> env \<Rightarrow> nat \<Rightarrow> objectid \<Rightarrow> nat \<Rightarrow> user list \<Rightarrow> json list \<Rightarrow> register_body
     \<Rightarrow> response \<times> user list" where
  "register l e clock new_id salt us errors b =
     (if errors \<noteq> [] then (validationFailed errors, us)
      else
        case User_findOne_or us (rb_email b) (rb_username b) of
          Some existingUser \<Rightarrow>
            (respond 400
               (JObj [(''error'', JStr ''User already exists''),
                      (''message'',
                       JStr (if d_email existingUser = rb_email b
                             then ''Email is already registered''
                             else ''Username is already taken''))]),
             us)
        | None \<Rightarrow>
            (case User_save l clock new_id salt us (rb_username b) (rb_email b)
                    (rb_password b) of
               Inl err \<Rightarrow> (errorHandler e err, us)
             | Inr (u, us') \<Rightarrow>
                 (respond 201
                    (JObj [(''message'', JStr ''User registered successfully''),
                           (''token'', JStr (generateToken l e clock (u_id u))),
                           (''user'', userProjection (u_id u) (u_username u) (u_email u))]),
                  us')))"

definition login ::
  "lib \<Rightarrow> env \<Rightarrow> nat \<Rightarrow> user list \<Rightarrow> json list \<Rightarrow> login_body \<Rightarrow> response" where
  "login l e clock us errors b =
     (if errors \<noteq> [] then validationFailed errors
      else
        case User_findOne_email us (lb_email b) of
          None \<Rightarrow>
            respond 401 (JObj [(''error'', JStr ''Invalid credentials''),
                               (''message'', JStr ''Email or password is incorrect'')])
        | Some u \<Rightarrow>
            (case comparePassword u (lb_password b) of
               Inl err \<Rightarrow> errorHandler e err
             | Inr isPasswordValid \<Rightarrow>
                 if \<not> isPasswordValid
                 then respond 401 (JObj [(''error'', JStr ''Invalid credentials''),
                                         (''message'', JStr ''Email or password is incorrect'')])
                 else respond 200
                        (JObj [(''message'', JStr ''Login successful''),
                               (''token'', JStr (generateToken l e clock (d_id u))),
                               (''user'', userProjection (d_id u) (d_username u) (d_email u))])))"

section \<open>The identity gate (middleware/auth.js)\<close>

text \<open>
  What \<^verbatim>\<open>authenticate\<close> does with a request: it answers itself, it calls
  \<^verbatim>\<open>next()\<close> after setting \<^verbatim>\<open>req.user\<close>, or it calls \<^verbatim>\<open>next(error)\<close>.
\<close>

record req_user =
  ru_userId :: string
  ru_user :: user_doc

datatype gate = Responded response | Next req_user | NextError error

definition unauthorized :: "string \<Rightarrow> response" where
  "unauthorized m = respond 401 (JObj [(''error'', JStr ''Unauthorized''), (''message'', JStr m)])"

definition authenticate :: "lib \<Rightarrow> env \<Rightarrow> nat \<Rightarrow> user list \<Rightarrow> string option \<Rightarrow> gate" where
  "authenticate l e clock us authorization =
     (case authorization of
        None \<Rightarrow>
          Responded (unauthorized
            ''No token provided. Please include a Bearer token in the Authorization header.'')
      | Some authHeader \<Rightarrow>
          if authHeader = [] \<or> \<not> startsWith authHeader ''Bearer ''
          then Responded (unauthorized
            ''No token provided. Please include a Bearer token in the Authorization header.'')
          else
            let token = drop 7 authHeader in
            (case jwt_verify l clock token (JWT_SECRET_middleware e) of
               Inl jwtError \<Rightarrow> Responded (unauthorized ''Invalid or expired token'')
             | Inr decoded \<Rightarrow>
                 (case User_findById us (jwt_userId decoded) of
                    Inl err \<Rightarrow> NextError err
                  | Inr None \<Rightarrow> Responded (unauthorized ''User no longer exists'')
                  | Inr (Some u) \<Rightarrow>
                      Next \<lparr>ru_userId = jwt_userId decoded, ru_user = u\<rparr>)))"

section \<open>Task store (models/Task.js)\<close>

record task =
  t_id :: objectid
  t_title :: string
  t_description :: string
  t_completed :: bool
  t_user :: objectid
  t_createdAt :: nat
  t_updatedAt :: nat

record store =
  users :: "user list"
  tasks :: "task list"

text \<open>
  A task document as \<^verbatim>\<open>res.json\<close> writes it; the second argument is the value at the
  \<^verbatim>\<open>user\<close> path, the owner's identifier or what \<^verbatim>\<open>populate\<close> put there.
  A date is written as its count of milliseconds.
\<close>

definition task_json :: "task \<Rightarrow> json \<Rightarrow> json" where
  "task_json t u =
     JObj [(''_id'', JStr (t_id t)), (''title'', JStr (t_title t)),
           (''description'', JStr (t_description t)), (''completed'', JBool (t_completed t)),
           (''user'', u), (''createdAt'', JNum (int (t_createdAt t))),
           (''updatedAt'', JNum (int (t_updatedAt t))), (''__v'', JNum 0)]"

text \<open>\<^verbatim>\<open>task.populate('user', 'username email')\<close>: the owner's document with the two
  selected paths and its identifier, or \<^verbatim>\<open>null\<close> when there is no such user.\<close>

definition populate_user :: "user list \<Rightarrow> objectid \<Rightarrow> json" where
  "populate_user us oid =
     (case find (\<lambda>u. u_id u = oid) us of
        None \<Rightarrow> JNull
      | Some u \<Rightarrow> JObj [(''_id'', JStr (u_id u)), (''username'', JStr (u_username u)),
                        (''email'', JStr (u_email u))])"

text \<open>The validators of \<^verbatim>\<open>taskSchema\<close> on the title and the description.\<close>

definition taskSchema_validate :: "string option \<Rightarrow> string \<Rightarrow> (string \<times> string) list" where
  "taskSchema_validate title description =
     (case title of
        None \<Rightarrow> [(''title'', ''Task title is required'')]
      | Some t \<Rightarrow>
          if t = [] then [(''title'', ''Task title is required'')]
          else if 200 < length t
          then [(''title'', ''Task title cannot exceed 200 characters'')]
          else [])
     @ (if 1000 < length description
        then [(''description'', ''Task description cannot exceed 1000 characters'')]
        else [])"

text \<open>
  \<^verbatim>\<open>new Task({ title, description, completed, user })\<close> followed by
  \<^verbatim>\<open>task.save()\<close>: the setters trim the two strings, the owner is cast (a failed cast
  is reported by validation, under the \<^verbatim>\<open>user\<close> path), the validators run, and the
  document is inserted with both timestamps at the clock.
\<close>

definition Task_create ::
  "nat \<Rightarrow> objectid \<Rightarrow> string option \<Rightarrow> string \<Rightarrow> bool \<Rightarrow> string \<Rightarrow> error + task" where
  "Task_create clock new_id title description completed userId =
     (let title' = map_option trim title;
          description' = trim description;
          errs = taskSchema_validate title' description'
                 @ (case castObjectId userId of
                      None \<Rightarrow> [(''user'', err_message (CastError userId ''user'' ''Task''))]
                    | Some oid \<Rightarrow> [])
      in case (errs, title', castObjectId userId) of
           ([], Some t, Some oid) \<Rightarrow>
             Inr \<lparr>t_id = new_id, t_title = t, t_description = description',
                  t_completed = completed, t_user = oid,
                  t_createdAt = clock, t_updatedAt = clock\<rparr>
         | _ \<Rightarrow> Inl (ValidationError ''Task'' errs))"

text \<open>
  \<^verbatim>\<open>Task.findOne({ _id: id, user: userId })\<close>, and the same filter of
  \<^verbatim>\<open>findOneAndDelete\<close>: both values are cast, a failed cast is thrown, and the
  answer is the first task that has this identifier and this owner.
\<close>

definition Task_findOne :: "task list \<Rightarrow> string \<Rightarrow> string \<Rightarrow> error + task option" where
  "Task_findOne ts i userId =
     (case castObjectId i of
        None \<Rightarrow> Inl (CastError i ''_id'' ''Task'')
      | Some oid \<Rightarrow>
          (case castObjectId userId of
             None \<Rightarrow> Inl (CastError userId ''user'' ''Task'')
           | Some uid \<Rightarrow> Inr (find (\<lambda>t. t_id t = oid \<and> t_user t = uid) ts)))"

text \<open>The first element that satisfies \<open>P\<close>, replaced or removed: the store's
  single-document update and delete.\<close>

fun replace_first :: "('a \<Rightarrow> bool) \<Rightarrow> 'a \<Rightarrow> 'a list \<Rightarrow> 'a list" where
  "replace_first P y [] = []"
| "replace_first P y (x # xs) = (if P x then y # xs else x # replace_first P y xs)"

fun remove_first :: "('a \<Rightarrow> bool) \<Rightarrow> 'a list \<Rightarrow> 'a list" where
  "remove_first P [] = []"
| "remove_first P (x # xs) = (if P x then xs else x # remove_first P xs)"

text \<open>
  \<^verbatim>\<open>task.save()\<close> on a document read from the store, after the handler's
  assignments turned \<open>old\<close> into \<open>new\<close>: the validators run; nothing is written when no
  path changed; otherwise \<^verbatim>\<open>updatedAt\<close> moves to the clock and the document with
  this \<^verbatim>\<open>_id\<close> is updated.
\<close>

definition Task_save :: "nat \<Rightarrow> task list \<Rightarrow> task \<Rightarrow> task \<Rightarrow> error + (task \<times> task list)" where
  "Task_save clock ts old new =
     (let errs = taskSchema_validate (Some (t_title new)) (t_description new)
      in if errs \<noteq> [] then Inl (ValidationError ''Task'' errs)
         else if new = old then Inr (old, ts)
         else let saved = new\<lparr>t_updatedAt := clock\<rparr>
              in Inr (saved, replace_first (\<lambda>t. t_id t = t_id saved) saved ts))"

section \<open>Task routes (routes/tasks.js)\<close>

text \<open>
  The request body of a task route: an absent property is \<open>None\<close>
  (\<^verbatim>\<open>undefined\<close>); the properties have the types the route documents.
\<close>

record task_body =
  tb_title :: "string option"
  tb_description :: "string option"
  tb_completed :: "bool option"

definition createTask ::
  "env \<Rightarrow> nat \<Rightarrow> objectid \<Rightarrow> store \<Rightarrow> req_user \<Rightarrow> json list \<Rightarrow> task_body
     \<Rightarrow> response \<times> store" where
  "createTask e clock new_id st ru errors b =
     (if errors \<noteq> [] then (validationFailed errors, st)
      else
        let title = tb_title b;
            description = (case tb_description b of
                             None \<Rightarrow> []
                           | Some d \<Rightarrow> if d = [] then [] else d);
            completed = (case tb_completed b of
                           None \<Rightarrow> False
                         | Some c \<Rightarrow> if c then c else False)
        in case Task_create clock new_id title description completed (ru_userId ru) of
             Inl err \<Rightarrow> (errorHandler e err, st)
           | Inr t \<Rightarrow>
               (respond 201
                  (JObj [(''message'', JStr ''Task created successfully''),
                         (''task'', task_json t (populate_user (users st) (t_user t)))]),
                st\<lparr>tasks := tasks st @ [t]\<rparr>))"

text \<open>\<^verbatim>\<open>Task.find({ user }).sort({ createdAt: -1 })\<close>, newest first.\<close>

definition Task_find :: "task list \<Rightarrow> string \<Rightarrow> error + task list" where
  "Task_find ts userId =
     (case castObjectId userId of
        None \<Rightarrow> Inl (CastError userId ''user'' ''Task'')
      | Some uid \<Rightarrow> Inr (rev (sort_key t_createdAt (filter (\<lambda>t. t_user t = uid) ts))))"

definition getTasks :: "env \<Rightarrow> store \<Rightarrow> req_user \<Rightarrow> response" where
  "getTasks e st ru =
     (case Task_find (tasks st) (ru_userId ru) of
        Inl err \<Rightarrow> errorHandler e err
      | Inr ts \<Rightarrow>
          respond 200
            (JObj [(''message'', JStr ''Tasks retrieved successfully''),
                   (''count'', JNum (int (length ts))),
                   (''tasks'', JArr (map (\<lambda>t. task_json t (JStr (t_user t))) ts))]))"

definition invalidTaskId :: response where
  "invalidTaskId =
     respond 400 (JObj [(''error'', JStr ''Invalid task ID''),
                        (''message'', JStr ''The provided task ID is not valid'')])"

text \<open>The \<^verbatim>\<open>catch\<close> block of the update and delete routes.\<close>

definition catchCastError :: "env \<Rightarrow> error \<Rightarrow> response" where
  "catchCastError e err =
     (if err_name err = ''CastError'' then invalidTaskId else errorHandler e err)"

text \<open>The three guarded assignments of the update route, with the schema's setters.\<close>

definition assignFields :: "task \<Rightarrow> task_body \<Rightarrow> task" where
  "assignFields task b =
     (let task1 = (case tb_title b of
                     None \<Rightarrow> task | Some title \<Rightarrow> task\<lparr>t_title := trim title\<rparr>);
          task2 = (case tb_description b of
                     None \<Rightarrow> task1
                   | Some description \<Rightarrow> task1\<lparr>t_description := trim description\<rparr>);
          task3 = (case tb_completed b of
                     None \<Rightarrow> task2 | Some completed \<Rightarrow> task2\<lparr>t_completed := completed\<rparr>)
      in task3)"

definition updateTask ::
  "env \<Rightarrow> nat \<Rightarrow> store \<Rightarrow> req_user \<Rightarrow> string \<Rightarrow> json list \<Rightarrow> task_body \<Rightarrow> response \<times> store"
  where
  "updateTask e clock st ru i errors b =
     (if errors \<noteq> [] then (validationFailed errors, st)
      else
        case Task_findOne (tasks st) i (ru_userId ru) of
          Inl err \<Rightarrow> (catchCastError e err, st)
        | Inr None \<Rightarrow>
            (respond 404
               (JObj [(''error'', JStr ''Task not found''),
                      (''message'',
                       JStr ''Task does not exist or you do not have permission to access it'')]),
             st)
        | Inr (Some task) \<Rightarrow>
            (case Task_save clock (tasks st) task (assignFields task b) of
               Inl err \<Rightarrow> (catchCastError e err, st)
             | Inr (saved, ts') \<Rightarrow>
                 (respond 200
                    (JObj [(''message'', JStr ''Task updated successfully''),
                           (''task'', task_json saved (JStr (t_user saved)))]),
                  st\<lparr>tasks := ts'\<rparr>)))"

definition deleteTask :: "env \<Rightarrow> store \<Rightarrow> req_user \<Rightarrow> string \<Rightarrow> response \<times> store" where
  "deleteTask e st ru i =
     (case Task_findOne (tasks st) i (ru_userId ru) of
        Inl err \<Rightarrow> (catchCastError e err, st)
      | Inr None \<Rightarrow>
          (respond 404
             (JObj [(''error'', JStr ''Task not found''),
                    (''message'',
                     JStr ''Task does not exist or you do not have permission to delete it'')]),
           st)
      | Inr (Some task) \<Rightarrow>
          (respond 200
             (JObj [(''message'', JStr ''Task deleted successfully''),
                    (''task'', task_json task (JStr (t_user task)))]),
           st\<lparr>tasks := remove_first (\<lambda>t. t_id t = t_id task \<and> t_user t = t_user task)
                          (tasks st)\<rparr>))"

text \<open>
  The router: \<^verbatim>\<open>router.use(authenticate)\<close> runs the gate before every route; an
  error handed to \<^verbatim>\<open>next\<close> reaches \<^verbatim>\<open>errorHandler\<close>.
\<close>

datatype task_request =
    POST "json list" task_body
  | GET
  | PUT string "json list" task_body
  | DELETE string

definition taskRoutes ::
  "lib \<Rightarrow> env \<Rightarrow> nat \<Rightarrow> objectid \<Rightarrow> store \<Rightarrow> string option \<Rightarrow> task_request
     \<Rightarrow> response \<times> store" where
  "taskRoutes l e clock new_id st authorization req =
     (case authenticate l e clock (users st) authorization of
        Responded r \<Rightarrow> (r, st)
      | NextError err \<Rightarrow> (errorHandler e err, st)
      | Next ru \<Rightarrow>
          (case req of
             POST errors b \<Rightarrow> createTask e clock new_id st ru errors b
           | GET \<Rightarrow> (getTasks e st ru, st)
           | PUT i errors b \<Rightarrow> updateTask e clock st ru i errors b
           | DELETE i \<Rightarrow> deleteTask e st ru i))"

text \<open>The validation result a task request carries (none for the routes without
  validators).\<close>

primrec validationErrors :: "task_request \<Rightarrow> json list" where
  "validationErrors (POST errors b) = errors"
| "validationErrors GET = []"
| "validationErrors (PUT i errors b) = errors"
| "validationErrors (DELETE i) = []"

section \<open>Example data\<close>

text \<open>
  A small system for the concrete instances below: no secret configured, two users, two
  tasks of the first user and one of the second, and a token library that writes a token
  as \<^verbatim>\<open>jwt.\<close> followed by the identity and reads such a string back as a token
  issued at second 1 under the fallback secret.
\<close>

definition exEnv :: env where
  "exEnv = \<lparr>env_JWT_SECRET = None, env_NODE_ENV = None\<rparr>"

definition exLib :: lib where
  "exLib =
     \<lparr>jwt_encode = (\<lambda>j. ''jwt.'' @ jwt_userId j),
      jwt_decode = (\<lambda>s. if startsWith s ''jwt.''
                         then Some \<lparr>jwt_userId = drop 4 s, jwt_iat = 1, jwt_exp = 604801,
                                    jwt_key = ''your-secret-key-change-in-production''\<rparr>
                         else None),
      email_pattern = (\<lambda>s. True)\<rparr>"

definition aliceId :: objectid where
  "aliceId = ''aaaaaaaaaaaaaaaaaaaaaaaa''"

definition bobId :: objectid where
  "bobId = ''bbbbbbbbbbbbbbbbbbbbbbbb''"

definition alice :: user where
  "alice = \<lparr>u_id = aliceId, u_username = ''alice'', u_email = ''alice@example.com'',
            u_password = Digest 7 ''wonderland'', u_createdAt = 10, u_updatedAt = 10\<rparr>"

definition bob :: user where
  "bob = \<lparr>u_id = bobId, u_username = ''bob'', u_email = ''bob@example.com'',
          u_password = Digest 9 ''builder1'', u_createdAt = 20, u_updatedAt = 20\<rparr>"

definition milk :: task where
  "milk = \<lparr>t_id = ''111111111111111111111111'', t_title = ''Buy milk'', t_description = [],
           t_completed = False, t_user = aliceId, t_createdAt = 30, t_updatedAt = 30\<rparr>"

definition taxes :: task where
  "taxes = \<lparr>t_id = ''222222222222222222222222'', t_title = ''File taxes'',
            t_description = ''before April'', t_completed = True, t_user = aliceId,
            t_createdAt = 40, t_updatedAt = 45\<rparr>"

definition bricks :: task where
  "bricks = \<lparr>t_id = ''333333333333333333333333'', t_title = ''Order bricks'',
             t_description = [], t_completed = False, t_user = bobId,
             t_createdAt = 35, t_updatedAt = 35\<rparr>"

definition exStore :: store where
  "exStore = \<lparr>users = [alice, bob], tasks = [milk, bricks, taxes]\<rparr>"

definition aliceAuth :: "string option" where
  "aliceAuth = Some ''Bearer jwt.aaaaaaaaaaaaaaaaaaaaaaaa''"

definition bobAuth :: "string option" where
  "bobAuth = Some ''Bearer jwt.bbbbbbbbbbbbbbbbbbbbbbbb''"

definition emptyBody :: task_body where
  "emptyBody = \<lparr>tb_title = None, tb_description = None, tb_completed = None\<rparr>"

definition carolId :: objectid where
  "carolId = ''cccccccccccccccccccccccc''"

definition carolBody :: register_body where
  "carolBody = \<lparr>rb_username = ''carol'', rb_email = ''carol@example.com'',
                rb_password = ''s3cret!''\<rparr>"

text \<open>
  A second token library, one whose reader inverts its writer on every token: the two
  times and the length of the identity are written in binary, least significant digit
  first, each closed by a dot; the identity and the signing key follow.
\<close>

fun bits :: "nat \<Rightarrow> string" where
  "bits n = (if n = 0 then [] else (if odd n then CHR ''1'' else CHR ''0'') # bits (n div 2))"

declare bits.simps [simp del]

primrec unbits :: "string \<Rightarrow> nat" where
  "unbits [] = 0"
| "unbits (c # cs) = (if c = CHR ''1'' then 1 else 0) + 2 * unbits cs"

definition readNum :: "string \<Rightarrow> nat \<times> string" where
  "readNum s =
     (unbits (takeWhile (\<lambda>c. c \<noteq> CHR ''.'') s), drop 1 (dropWhile (\<lambda>c. c \<noteq> CHR ''.'') s))"

definition rtEncode :: "jwt \<Rightarrow> string" where
  "rtEncode j =
     ''jwt.'' @ bits (jwt_iat j) @ ''.'' @ bits (jwt_exp j) @ ''.''
       @ bits (length (jwt_userId j)) @ ''.'' @ jwt_userId j @ jwt_key j"

definition rtDecode :: "string \<Rightarrow> jwt option" where
  "rtDecode s =
     (if startsWith s ''jwt.''
      then (case readNum (drop 4 s) of
              (iat, s1) \<Rightarrow>
                (case readNum s1 of
                   (ex, s2) \<Rightarrow>
                     (case readNum s2 of
                        (n, s3) \<Rightarrow>
                          Some \<lparr>jwt_userId = take n s3, jwt_iat = iat, jwt_exp = ex,
                                 jwt_key = drop n s3\<rparr>)))
      else None)"

definition rtLib :: lib where
  "rtLib = \<lparr>jwt_encode = rtEncode, jwt_decode = rtDecode, email_pattern = (\<lambda>s. True)\<rparr>"

text \<open>The store with every password hash replaced (by \<open>h\<close> of the user).\<close>

definition rehash :: "(user \<Rightarrow> digest) \<Rightarrow> user list \<Rightarrow> user list" where
  "rehash h us = map (\<lambda>u. u\<lparr>u_password := h u\<rparr>) us"

section \<open>Basic facts\<close>

lemma status_respond [simp]: "status (respond n j) = n"
  by (simp add: respond_def)

lemma body_respond [simp]: "body (respond n j) = j"
  by (simp add: respond_def)

lemma find_SomeD: "find P xs = Some x \<Longrightarrow> P x \<and> x \<in> set xs"
  by (induction xs) (auto split: if_splits)

lemma catchCastError_CastError [simp]: "catchCastError e (CastError v p m) = invalidTaskId"
  by (simp add: catchCastError_def CastError_def mkError_def)

text \<open>Definitions unfolded when a concrete request is evaluated.\<close>

lemmas id_defs = castObjectId_def isHexDigit_def toLowerCase_def toLowerChar_def

lemmas gate_defs =
  authenticate_def startsWith_def jwt_verify_def JWT_SECRET_middleware_def
  User_findById_def select_default_def id_defs

lemmas example_defs =
  exEnv_def exLib_def aliceId_def bobId_def alice_def bob_def milk_def taxes_def
  bricks_def exStore_def aliceAuth_def bobAuth_def emptyBody_def carolId_def
  carolBody_def

text \<open>What a passed gate says about \<^verbatim>\<open>req.user\<close>: the identity is a well-formed
  identifier and the attached document is the stored user it names, read by default.\<close>

lemma authenticate_Next:
  assumes "authenticate l e clock us a = Next ru"
  shows "\<exists>oid u. castObjectId (ru_userId ru) = Some oid
           \<and> find (\<lambda>u. u_id u = oid) us = Some u \<and> ru_user ru = select_default u"
  using assms
  by (auto simp: authenticate_def User_findById_def Let_def
      split: option.splits if_splits sum.splits)

lemma aliceAuth_passes:
  "authenticate exLib exEnv 1000 (users exStore) aliceAuth
     = Next \<lparr>ru_userId = aliceId, ru_user = select_default alice\<rparr>"
  by (simp add: gate_defs example_defs)

lemma bobAuth_passes:
  "authenticate exLib exEnv 1000 (users exStore) bobAuth
     = Next \<lparr>ru_userId = bobId, ru_user = select_default bob\<rparr>"
  by (simp add: gate_defs example_defs)

text \<open>The second token library reads back every token it writes.\<close>

lemma unbits_bits: "unbits (bits n) = n"
proof (induction n rule: bits.induct)
  case (1 n)
  show ?case
  proof (cases "n = 0")
    case True
    then show ?thesis by (simp add: bits.simps)
  next
    case False
    with "1" have "unbits (bits (n div 2)) = n div 2" by simp
    with False show ?thesis by (subst bits.simps) auto
  qed
qed

lemma bits_no_dot: "CHR ''.'' \<notin> set (bits n)"
proof (induction n rule: bits.induct)
  case (1 n)
  then show ?case by (subst bits.simps) auto
qed

lemma readNum_bits: "readNum (bits n @ CHR ''.'' # rest) = (n, rest)"
proof -
  let ?P = "\<lambda>c. c \<noteq> CHR ''.''"
  have all: "\<And>x. x \<in> set (bits n) \<Longrightarrow> ?P x"
    using bits_no_dot [of n] by auto
  have t: "takeWhile ?P (bits n @ CHR ''.'' # rest) = bits n"
    using takeWhile_append2 [of "bits n" ?P "CHR ''.'' # rest"] all by simp
  have d: "dropWhile ?P (bits n @ CHR ''.'' # rest) = CHR ''.'' # rest"
    using dropWhile_append2 [of "bits n" ?P "CHR ''.'' # rest"] all by simp
  show ?thesis by (simp add: readNum_def t d unbits_bits)
qed

lemma rtLib_roundtrip: "jwt_decode rtLib (jwt_encode rtLib j) = Some j"
  by (simp add: rtLib_def rtEncode_def rtDecode_def startsWith_def readNum_bits)

section \<open>Facts about the handlers\<close>

lemma JWT_SECRET_agree: "JWT_SECRET_routes e = JWT_SECRET_middleware e"
  by (simp add: JWT_SECRET_routes_def JWT_SECRET_middleware_def)

lemma status_validationFailed [simp]: "status (validationFailed errors) = 400"
  by (simp add: validationFailed_def)

lemma status_errorHandler_ValidationError [simp]:
  "status (errorHandler e (ValidationError m errs)) = 400"
  by (simp add: errorHandler_def ValidationError_def mkError_def Let_def)

lemma status_errorHandler_DuplicateKeyError [simp]:
  "status (errorHandler e (DuplicateKeyError p v)) = 400"
  by (simp add: errorHandler_def DuplicateKeyError_def mkError_def Let_def)

lemma status_errorHandler_CastError [simp]:
  "status (errorHandler e (CastError v p m)) = 404"
  by (simp add: errorHandler_def CastError_def mkError_def Let_def)

lemma User_save_Inl:
  "User_save l clock new_id salt us un em pw = Inl err \<Longrightarrow> status (errorHandler e err) = 400"
  by (auto simp: User_save_def Let_def split: if_splits)

lemma User_save_Inr:
  "User_save l clock new_id salt us un em pw = Inr (u, us') \<Longrightarrow>
     u = \<lparr>u_id = new_id, u_username = trim un, u_email = trim (toLowerCase em),
          u_password = bcrypt_hash pw salt, u_createdAt = clock, u_updatedAt = clock\<rparr>
     \<and> us' = us @ [u]"
  by (auto simp: User_save_def Let_def split: if_splits)

lemma register_created:
  assumes "status (fst (register l e clock new_id salt us errors b)) = 201"
  shows "\<exists>u. User_save l clock new_id salt us (rb_username b) (rb_email b) (rb_password b)
               = Inr (u, us @ [u])
           \<and> register l e clock new_id salt us errors b =
               (respond 201
                  (JObj [(''message'', JStr ''User registered successfully''),
                         (''token'', JStr (generateToken l e clock new_id)),
                         (''user'', userProjection new_id (u_username u) (u_email u))]),
                us @ [u])"
proof (cases "errors = []")
  case False
  with assms show ?thesis by (simp add: register_def)
next
  case True
  show ?thesis
  proof (cases "User_findOne_or us (rb_email b) (rb_username b)")
    case (Some x)
    with True assms show ?thesis by (simp add: register_def)
  next
    case None
    show ?thesis
    proof (cases "User_save l clock new_id salt us (rb_username b) (rb_email b) (rb_password b)")
      case (Inl err)
      with True None assms User_save_Inl [OF Inl, of e] show ?thesis
        by (simp add: register_def)
    next
      case (Inr p)
      obtain u us' where p: "p = (u, us')" by (cases p)
      from User_save_Inr [OF Inr [unfolded p]] have u: "u_id u = new_id" "us' = us @ [u]"
        by simp_all
      with True None Inr p show ?thesis by (simp add: register_def)
    qed
  qed
qed

lemma status_errorHandler_mkError [simp]:
  "status (errorHandler e (mkError ''Error'' m)) = 500"
  by (simp add: errorHandler_def mkError_def Let_def)

lemma login_ok:
  assumes "status (login l e clock us errors b) = 200"
  shows "\<exists>u p. find (\<lambda>u. u_email u = lb_email b) us = Some u
           \<and> lb_password b = JStr p
           \<and> bcrypt_compare p (u_password u)
           \<and> login l e clock us errors b =
               respond 200
                 (JObj [(''message'', JStr ''Login successful''),
                        (''token'', JStr (generateToken l e clock (u_id u))),
                        (''user'', userProjection (u_id u) (u_username u) (u_email u))])"
  using assms
  by (auto simp: login_def User_findOne_email_def comparePassword_def select_plus_password_def
      select_default_def split: if_splits option.splits json.splits)

lemma jwt_verify_expired:
  assumes "jwt_decode l tok = Some j" "jwt_exp j \<le> clock div 1000"
  shows "\<exists>err. jwt_verify l clock tok secret = Inl err"
  using assms by (simp add: jwt_verify_def)

lemma jwt_verify_valid:
  assumes "jwt_decode l tok = Some j" "jwt_key j = secret" "clock div 1000 < jwt_exp j"
  shows "jwt_verify l clock tok secret = Inr j"
  using assms by (simp add: jwt_verify_def)

lemma authenticate_expired:
  assumes "jwt_decode l tok = Some j" "jwt_exp j \<le> clock div 1000"
  shows "authenticate l e clock us (Some (''Bearer '' @ tok))
           = Responded (unauthorized ''Invalid or expired token'')"
  using jwt_verify_expired [OF assms, of "JWT_SECRET_middleware e"]
  by (auto simp: authenticate_def startsWith_def)

lemma authenticate_valid:
  assumes "jwt_decode l tok = Some j" "jwt_key j = JWT_SECRET_middleware e"
      "clock div 1000 < jwt_exp j" "castObjectId (jwt_userId j) = Some oid"
      "find (\<lambda>u. u_id u = oid) us = Some u"
  shows "authenticate l e clock us (Some (''Bearer '' @ tok))
           = Next \<lparr>ru_userId = jwt_userId j, ru_user = select_default u\<rparr>"
  using jwt_verify_valid [OF assms(1-3)] assms(4,5)
  by (simp add: authenticate_def startsWith_def User_findById_def)


lemma field_token [simp]:
  "field ''token'' (JObj [(''message'', m), (''token'', t), (''user'', u)]) = Some t"
  by (simp add: field_def)

lemmas string_defs = trim_def isSpace_def toLowerCase_def toLowerChar_def

lemma carol_registers:
  assumes "email_pattern l ''carol@example.com''"
  shows "register l exEnv 1000 carolId 5 [alice, bob] [] carolBody =
     (respond 201
        (JObj [(''message'', JStr ''User registered successfully''),
               (''token'', JStr (generateToken l exEnv 1000 carolId)),
               (''user'', userProjection carolId ''carol'' ''carol@example.com'')]),
      [alice, bob,
       \<lparr>u_id = carolId, u_username = ''carol'', u_email = ''carol@example.com'',
        u_password = Digest 5 ''s3cret!'', u_createdAt = 1000, u_updatedAt = 1000\<rparr>])"
  using assms
  by (simp add: register_def User_findOne_or_def User_save_def userSchema_validate_def
      Let_def string_defs bcrypt_hash_def carolBody_def carolId_def alice_def bob_def)

lemma alice_logs_in:
  "login l exEnv 1000 [alice, bob] []
     \<lparr>lb_email = ''alice@example.com'', lb_password = JStr ''wonderland''\<rparr> =
     respond 200
       (JObj [(''message'', JStr ''Login successful''),
              (''token'', JStr (generateToken l exEnv 1000 aliceId)),
              (''user'', userProjection aliceId ''alice'' ''alice@example.com'')])"
  by (simp add: login_def User_findOne_email_def comparePassword_def select_plus_password_def
      select_default_def bcrypt_compare_def bcrypt_hash_def alice_def bob_def)

text \<open>A failed login with a string for a password is one of two fixed responses.\<close>

lemma login_failed:
  assumes "status (login l e clock us errors b) \<noteq> 200" and "lb_password b = JStr p"
  shows "login l e clock us errors b =
           (if errors \<noteq> [] then validationFailed errors
            else respond 401 (JObj [(''error'', JStr ''Invalid credentials''),
                                    (''message'', JStr ''Email or password is incorrect'')]))"
  using assms
  by (auto simp: login_def User_findOne_email_def comparePassword_def select_plus_password_def
      split: option.splits if_splits)

section \<open>Facts about the task routes\<close>

lemma find_filter_same: "find (\<lambda>x. R x \<and> Q x) (filter Q xs) = find (\<lambda>x. R x \<and> Q x) xs"
  by (induction xs) auto

lemma find_None_list_ex: "find P xs = None \<longleftrightarrow> \<not> list_ex P xs"
  by (induction xs) auto

lemma Task_findOne_own:
  assumes "castObjectId userId = Some uid"
  shows "Task_findOne (filter (\<lambda>t. t_user t = uid) ts) i userId = Task_findOne ts i userId"
  using assms by (simp add: Task_findOne_def find_filter_same split: option.splits)

lemma Task_find_own:
  assumes "castObjectId userId = Some uid"
  shows "Task_find (filter (\<lambda>t. t_user t = uid) ts) userId = Task_find ts userId"
  using assms by (simp add: Task_find_def)

lemma authenticate_Next_id:
  assumes "authenticate l e clock us a = Next ru"
  shows "castObjectId (ru_userId ru) = Some (d_id (ru_user ru))"
proof -
  from authenticate_Next [OF assms] obtain oid u where
    c: "castObjectId (ru_userId ru) = Some oid" and f: "find (\<lambda>u. u_id u = oid) us = Some u"
    and d: "ru_user ru = select_default u"
    by blast
  from find_SomeD [OF f] have "u_id u = oid" by simp
  with c d show ?thesis by (simp add: select_default_def)
qed

lemma Task_save_cases:
  "(\<exists>err. Task_save clock ts old new = Inl err \<and> (\<forall>ts'. Task_save clock ts' old new = Inl err))
   \<or> (\<exists>saved. \<forall>ts'. \<exists>ts''. Task_save clock ts' old new = Inr (saved, ts''))"
  by (simp add: Task_save_def Let_def)

lemma updateTask_own:
  assumes "castObjectId (ru_userId ru) = Some uid"
  shows "fst (updateTask e clock (st\<lparr>tasks := filter (\<lambda>t. t_user t = uid) (tasks st)\<rparr>) ru i errors b)
       = fst (updateTask e clock st ru i errors b)"
  by (simp add: updateTask_def Task_findOne_own [OF assms] Task_save_def Let_def
      split: sum.splits option.splits)

lemma deleteTask_own:
  assumes "castObjectId (ru_userId ru) = Some uid"
  shows "fst (deleteTask e (st\<lparr>tasks := filter (\<lambda>t. t_user t = uid) (tasks st)\<rparr>) ru i)
       = fst (deleteTask e st ru i)"
  by (simp add: deleteTask_def Task_findOne_own [OF assms] split: sum.splits option.splits)

lemma createTask_own:
  "fst (createTask e clock new_id (st\<lparr>tasks := ts\<rparr>) ru errors b)
       = fst (createTask e clock new_id st ru errors b)"
  by (simp add: createTask_def Let_def split: sum.splits)

lemma getTasks_own:
  assumes "castObjectId (ru_userId ru) = Some uid"
  shows "getTasks e (st\<lparr>tasks := filter (\<lambda>t. t_user t = uid) (tasks st)\<rparr>) ru = getTasks e st ru"
  by (simp add: getTasks_def Task_find_own [OF assms])

lemma taskRoutes_own:
  assumes "authenticate l e clock (users st) a = Next ru"
  shows "fst (taskRoutes l e clock new_id
                (st\<lparr>tasks := filter (\<lambda>t. t_user t = d_id (ru_user ru)) (tasks st)\<rparr>) a req)
       = fst (taskRoutes l e clock new_id st a req)"
  using assms authenticate_Next_id [OF assms]
  by (cases req) (simp_all add: taskRoutes_def updateTask_own deleteTask_own createTask_own
      getTasks_own)

lemma field_task [simp]: "field ''task'' (JObj [(''message'', m), (''task'', t)]) = Some t"
  by (simp add: field_def)

lemma field_tasks [simp]:
  "field ''tasks'' (JObj [(''message'', m), (''count'', c), (''tasks'', t)]) = Some t"
  by (simp add: field_def)

lemma replace_first_same:
  "find P xs = Some x \<Longrightarrow> replace_first P x xs = xs"
  by (induction xs) (auto split: if_splits)

lemma assignFields_eq:
  "assignFields t b =
     t\<lparr>t_title := (case tb_title b of None \<Rightarrow> t_title t | Some x \<Rightarrow> trim x),
       t_description := (case tb_description b of None \<Rightarrow> t_description t | Some x \<Rightarrow> trim x),
       t_completed := (case tb_completed b of None \<Rightarrow> t_completed t | Some x \<Rightarrow> x)\<rparr>"
  by (simp add: assignFields_def split: option.splits)

lemma assignFields_empty [simp]:
  "assignFields t \<lparr>tb_title = None, tb_description = None, tb_completed = None\<rparr> = t"
  by (simp add: assignFields_def)

lemma status_catchCastError_ValidationError [simp]:
  "status (catchCastError e (ValidationError m errs)) = 400"
  by (simp add: catchCastError_def)
    (simp add: ValidationError_def mkError_def)

lemma Task_save_Inl:
  "Task_save clock ts old new = Inl err \<Longrightarrow> status (catchCastError e err) = 400"
  by (auto simp: Task_save_def Let_def split: if_splits)

lemma Task_save_Inr:
  assumes "Task_save clock ts old new = Inr (saved, ts')"
      and "t_updatedAt new = t_updatedAt old"
  shows "taskSchema_validate (Some (t_title new)) (t_description new) = []
       \<and> saved = (if new = old then old else new\<lparr>t_updatedAt := clock\<rparr>)
       \<and> ts' = (if saved = old then ts else replace_first (\<lambda>x. t_id x = t_id new) saved ts)"
proof (cases "new = old")
  case True
  with assms show ?thesis by (auto simp: Task_save_def Let_def split: if_splits)
next
  case False
  have "new\<lparr>t_updatedAt := clock\<rparr> \<noteq> old"
  proof
    assume eq: "new\<lparr>t_updatedAt := clock\<rparr> = old"
    then have "t_updatedAt old = clock" by (metis task.select_convs(7) task.surjective task.update_convs(7))
    with assms(2) have "new\<lparr>t_updatedAt := clock\<rparr> = new" by simp
    with eq False show False by simp
  qed
  with False assms show ?thesis by (auto simp: Task_save_def Let_def split: if_splits)
qed

lemma Task_create_title_only:
  assumes "trim title \<noteq> []" "length (trim title) \<le> 200" "castObjectId userId = Some uid"
  shows "Task_create clock new_id (Some title) [] False userId
           = Inr \<lparr>t_id = new_id, t_title = trim title, t_description = [], t_completed = False,
                  t_user = uid, t_createdAt = clock, t_updatedAt = clock\<rparr>"
  using assms by (simp add: Task_create_def taskSchema_validate_def trim_def)

lemma milk_found:
  "Task_findOne (tasks exStore) ''111111111111111111111111''
     (ru_userId \<lparr>ru_userId = aliceId, ru_user = select_default alice\<rparr>) = Inr (Some milk)"
  by (simp add: Task_findOne_def id_defs example_defs)

section \<open>Facts about the gate and the response bodies\<close>

lemma startsWith_append: "startsWith h p \<longleftrightarrow> (\<exists>t. h = p @ t)"
  by (metis append_eq_conv_conj append_take_drop_id startsWith_def)

lemma status_unauthorized [simp]: "status (unauthorized m) = 401"
  by (simp add: unauthorized_def)

lemma authenticate_no_header:
  assumes "a = None \<or> (\<exists>h. a = Some h \<and> \<not> startsWith h ''Bearer '')"
  shows "authenticate l e clock us a = Responded (unauthorized
           ''No token provided. Please include a Bearer token in the Authorization header.'')"
  using assms by (auto simp: authenticate_def)

lemma authenticate_bearer:
  "authenticate l e clock us (Some (''Bearer '' @ tok)) =
     (case jwt_verify l clock tok (JWT_SECRET_middleware e) of
        Inl jwtError \<Rightarrow> Responded (unauthorized ''Invalid or expired token'')
      | Inr decoded \<Rightarrow>
          (case User_findById us (jwt_userId decoded) of
             Inl err \<Rightarrow> NextError err
           | Inr None \<Rightarrow> Responded (unauthorized ''User no longer exists'')
           | Inr (Some u) \<Rightarrow> Next \<lparr>ru_userId = jwt_userId decoded, ru_user = u\<rparr>))"
  by (simp add: authenticate_def startsWith_def)

lemma keys_errorHandler: "''password'' \<notin> set (json_keys (body (errorHandler e err)))"
  by (simp add: errorHandler_def Let_def)

lemma keys_task_json:
  "''password'' \<notin> set (json_keys u) \<Longrightarrow> ''password'' \<notin> set (json_keys (task_json t u))"
  by (simp add: task_json_def)

lemma keys_populate_user: "''password'' \<notin> set (json_keys (populate_user us oid))"
  by (simp add: populate_user_def split: option.splits)

lemma keys_unauthorized: "''password'' \<notin> set (json_keys (body (unauthorized m)))"
  by (simp add: unauthorized_def)

lemma keys_catchCastError: "''password'' \<notin> set (json_keys (body (catchCastError e err)))"
  by (simp add: catchCastError_def invalidTaskId_def keys_errorHandler)

lemma keys_register: "''password'' \<notin> set (json_keys (body (fst (register l e clock new_id salt us [] b))))"
  by (simp add: register_def validationFailed_def userProjection_def keys_errorHandler
      split: option.splits sum.splits prod.splits)

lemma keys_login: "''password'' \<notin> set (json_keys (body (login l e clock us [] b)))"
  by (simp add: login_def userProjection_def keys_errorHandler split: option.splits sum.splits)

lemma keys_createTask:
  "''password'' \<notin> set (json_keys (body (fst (createTask e clock new_id st ru [] b))))"
  by (simp add: createTask_def Let_def keys_errorHandler keys_task_json keys_populate_user
      split: sum.splits)

lemma keys_getTasks: "''password'' \<notin> set (json_keys (body (getTasks e st ru)))"
  by (auto simp: getTasks_def keys_errorHandler task_json_def split: sum.splits)

lemma keys_updateTask:
  "''password'' \<notin> set (json_keys (body (fst (updateTask e clock st ru i [] b))))"
  by (simp add: updateTask_def keys_catchCastError keys_task_json
      split: sum.splits option.splits prod.splits)

lemma keys_deleteTask:
  "''password'' \<notin> set (json_keys (body (fst (deleteTask e st ru i))))"
  by (simp add: deleteTask_def keys_catchCastError keys_task_json
      split: sum.splits option.splits)

lemma keys_taskRoutes:
  assumes "validationErrors req = []"
  shows "''password'' \<notin> set (json_keys (body (fst (taskRoutes l e clock new_id st a req))))"
proof (cases "authenticate l e clock (users st) a")
  case (Responded r)
  then have "r = unauthorized ''No token provided. Please include a Bearer token in the Authorization header.''
      \<or> r = unauthorized ''Invalid or expired token'' \<or> r = unauthorized ''User no longer exists''"
    by (auto simp: authenticate_def Let_def split: option.splits if_splits sum.splits)
  with Responded show ?thesis
    by (auto simp: taskRoutes_def keys_unauthorized)
next
  case (NextError err)
  then show ?thesis by (simp add: taskRoutes_def keys_errorHandler)
next
  case (Next ru)
  with assms show ?thesis
    by (cases req)
      (simp_all add: taskRoutes_def keys_createTask keys_getTasks keys_updateTask keys_deleteTask)
qed


lemma field_user [simp]:
  "field ''user'' (JObj [(''message'', m), (''token'', t), (''user'', u)]) = Some u"
  by (simp add: field_def)

section \<open>Status codes and the schema invariant of the task routes\<close>

lemma Task_create_Inl:
  "Task_create clock new_id title description completed userId = Inl err
     \<Longrightarrow> status (errorHandler e err) = 400"
  by (auto simp: Task_create_def Let_def split: list.splits option.splits)

lemma status_invalidTaskId [simp]: "status invalidTaskId = 400"
  by (simp add: invalidTaskId_def)

lemma Task_findOne_Inl:
  "Task_findOne ts i userId = Inl err \<Longrightarrow> status (catchCastError e err) = 400"
  by (auto simp: Task_findOne_def split: option.splits)

lemma status_createTask:
  "status (fst (createTask e clock new_id st ru errors b)) \<in> {201, 400}"
  by (auto simp: createTask_def Let_def dest: Task_create_Inl split: sum.splits)

lemma status_getTasks: "status (getTasks e st ru) \<in> {200, 404}"
  by (auto simp: getTasks_def Task_find_def split: sum.splits option.splits)

lemma status_updateTask:
  "status (fst (updateTask e clock st ru i errors b)) \<in> {200, 400, 404}"
  by (auto simp: updateTask_def dest: Task_findOne_Inl Task_save_Inl
      split: sum.splits option.splits prod.splits)

lemma status_deleteTask: "status (fst (deleteTask e st ru i)) \<in> {200, 400, 404}"
  by (auto simp: deleteTask_def dest: Task_findOne_Inl split: sum.splits option.splits)

lemma status_taskRoutes:
  "status (fst (taskRoutes l e clock new_id st a req)) \<in> {200, 201, 400, 401, 404}"
proof (cases "authenticate l e clock (users st) a")
  case (Responded r)
  then have "status r = 401"
    by (auto simp: authenticate_def Let_def split: option.splits if_splits sum.splits)
  with Responded show ?thesis by (simp add: taskRoutes_def)
next
  case (NextError err)
  then have "status (errorHandler e err) = 404"
    by (auto simp: authenticate_def Let_def User_findById_def
        split: option.splits if_splits sum.splits)
  with NextError show ?thesis by (simp add: taskRoutes_def)
next
  case (Next ru)
  show ?thesis
  proof (cases req)
    case (POST errors b)
    with Next status_createTask [of e clock new_id st ru errors b] show ?thesis
      by (auto simp: taskRoutes_def)
  next
    case GET
    with Next status_getTasks [of e st ru] show ?thesis
      by (auto simp: taskRoutes_def)
  next
    case (PUT i errors b)
    with Next status_updateTask [of e clock st ru i errors b] show ?thesis
      by (auto simp: taskRoutes_def)
  next
    case (DELETE i)
    with Next status_deleteTask [of e st ru i] show ?thesis
      by (auto simp: taskRoutes_def)
  qed
qed

text \<open>Stored tasks meet their schema, and every route keeps it so.\<close>

lemma replace_first_set: "set (replace_first P y xs) \<subseteq> insert y (set xs)"
  by (induction xs) auto

lemma remove_first_set: "set (remove_first P xs) \<subseteq> set xs"
  by (induction xs) auto

lemma Task_create_valid:
  "Task_create clock new_id title description completed userId = Inr t
     \<Longrightarrow> taskSchema_validate (Some (t_title t)) (t_description t) = []"
  by (auto simp: Task_create_def Let_def taskSchema_validate_def
      split: list.splits option.splits if_splits)

lemma Task_save_valid:
  assumes "Task_save clock ts old new = Inr (saved, ts')"
      and "\<forall>t \<in> set ts. taskSchema_validate (Some (t_title t)) (t_description t) = []"
  shows "\<forall>t \<in> set ts'. taskSchema_validate (Some (t_title t)) (t_description t) = []"
proof -
  from assms(1) have v: "taskSchema_validate (Some (t_title new)) (t_description new) = []"
    and s: "ts' = ts \<or> (saved = new\<lparr>t_updatedAt := clock\<rparr>
                \<and> ts' = replace_first (\<lambda>t. t_id t = t_id saved) saved ts)"
    by (auto simp: Task_save_def Let_def split: if_splits)
  from s show ?thesis
  proof
    assume "ts' = ts"
    with assms(2) show ?thesis by simp
  next
    assume a: "saved = new\<lparr>t_updatedAt := clock\<rparr>
                \<and> ts' = replace_first (\<lambda>t. t_id t = t_id saved) saved ts"
    then have "taskSchema_validate (Some (t_title saved)) (t_description saved) = []"
      using v by simp
    with a assms(2) replace_first_set [of "\<lambda>t. t_id t = t_id saved" saved ts]
    show ?thesis by auto
  qed
qed

lemma taskRoutes_keeps_schema:
  assumes "\<forall>t \<in> set (tasks st). taskSchema_validate (Some (t_title t)) (t_description t) = []"
  shows "\<forall>t \<in> set (tasks (snd (taskRoutes l e clock new_id st a req))).
           taskSchema_validate (Some (t_title t)) (t_description t) = []"
proof (cases "authenticate l e clock (users st) a")
  case (Responded r)
  with assms show ?thesis by (simp add: taskRoutes_def)
next
  case (NextError err)
  with assms show ?thesis by (simp add: taskRoutes_def)
next
  case (Next ru)
  show ?thesis
  proof (cases req)
    case (POST errors b)
    with Next assms show ?thesis
      by (auto simp: taskRoutes_def createTask_def Let_def dest: Task_create_valid
          split: sum.splits)
  next
    case GET
    with Next assms show ?thesis by (simp add: taskRoutes_def)
  next
    case (PUT i errors b)
    with Next assms show ?thesis
      by (auto simp: taskRoutes_def updateTask_def dest: Task_save_valid
          split: sum.splits option.splits prod.splits)
  next
    case (DELETE i)
    with Next assms remove_first_set show ?thesis
      by (fastforce simp: taskRoutes_def deleteTask_def split: sum.splits option.splits)
  qed
qed


section \<open>Facts about issued tokens and the examples\<close>

text \<open>A token library that reads back what it writes reads back an issued token.\<close>

lemma generateToken_readback:
  assumes "\<And>j. jwt_decode l (jwt_encode l j) = Some j"
  shows "jwt_decode l (generateToken l e clock uid)
           = Some \<lparr>jwt_userId = uid, jwt_iat = clock div 1000,
                   jwt_exp = clock div 1000 + 7 * 24 * 60 * 60,
                   jwt_key = JWT_SECRET_middleware e\<rparr>"
  using assms by (simp add: generateToken_def jwt_sign_def JWT_SECRET_agree)

lemma status_handlers_not_401:
  "status (fst (case req of
                  POST errors b \<Rightarrow> createTask e clock new_id st ru errors b
                | GET \<Rightarrow> (getTasks e st ru, st)
                | PUT i errors b \<Rightarrow> updateTask e clock st ru i errors b
                | DELETE i \<Rightarrow> deleteTask e st ru i)) \<noteq> 401"
proof (cases req)
  case (POST errors b)
  with status_createTask [of e clock new_id st ru errors b] show ?thesis by auto
next
  case GET
  with status_getTasks [of e st ru] show ?thesis by auto
next
  case (PUT i errors b)
  with status_updateTask [of e clock st ru i errors b] show ?thesis by auto
next
  case (DELETE i)
  with status_deleteTask [of e st ru i] show ?thesis by auto
qed

lemma find_exists: "x \<in> set xs \<Longrightarrow> P x \<Longrightarrow> \<exists>y. find P xs = Some y"
  by (cases "find P xs") (auto simp: find_None_iff)

lemma find_append:
  "find P (xs @ ys) = (case find P xs of None \<Rightarrow> find P ys | Some x \<Rightarrow> Some x)"
  by (induction xs) auto

lemma rtLib_email [simp]: "email_pattern rtLib s"
  by (simp add: rtLib_def)

lemma aliceId_wf: "castObjectId aliceId = Some aliceId"
  by (simp add: id_defs aliceId_def)

lemma carolId_wf: "castObjectId carolId = Some carolId"
  by (simp add: id_defs carolId_def)

lemma alice_stored: "find (\<lambda>u. u_id u = aliceId) (users exStore) = Some alice"
  by (simp add: example_defs)


section \<open>The responses do not read the stored hashes\<close>

text \<open>
  Replacing every stored hash changes no default read, and so no decision of the gate
  and no response of registration or of a task route; login reads the hash of the
  matched user, and only through \<^verbatim>\<open>bcrypt.compare\<close>.
\<close>

lemma select_default_rehashed [simp]:
  "select_default (u\<lparr>u_password := x\<rparr>) = select_default u"
  by (simp add: select_default_def)

lemma find_rehash:
  assumes "\<And>u x. P (u\<lparr>u_password := x\<rparr>) = P u"
  shows "find P (rehash h us) = map_option (\<lambda>u. u\<lparr>u_password := h u\<rparr>) (find P us)"
  using assms by (induction us) (auto simp: rehash_def)

lemma list_ex_rehash:
  assumes "\<And>u x. P (u\<lparr>u_password := x\<rparr>) = P u"
  shows "list_ex P (rehash h us) = list_ex P us"
  using assms by (induction us) (auto simp: rehash_def)

lemma User_findById_rehash: "User_findById (rehash h us) i = User_findById us i"
  by (simp add: User_findById_def find_rehash option.map_comp comp_def split: option.splits)

lemma User_findOne_or_rehash:
  "User_findOne_or (rehash h us) mail uname = User_findOne_or us mail uname"
  by (simp add: User_findOne_or_def find_rehash option.map_comp comp_def
      split: option.splits)

lemma populate_user_rehash: "populate_user (rehash h us) oid = populate_user us oid"
  by (simp add: populate_user_def find_rehash split: option.splits)

lemma authenticate_rehash: "authenticate l e clock (rehash h us) a = authenticate l e clock us a"
  unfolding authenticate_def User_findById_rehash by (rule refl)

lemma User_save_rehash:
  "map_sum id fst (User_save l clock new_id salt (rehash h us) un em pw)
     = map_sum id fst (User_save l clock new_id salt us un em pw)"
  by (simp add: User_save_def Let_def list_ex_rehash)

lemma User_save_salt:
  "map_sum id (\<lambda>p. (u_id (fst p), u_username (fst p), u_email (fst p)))
       (User_save l clock new_id salt us un em pw)
     = map_sum id (\<lambda>p. (u_id (fst p), u_username (fst p), u_email (fst p)))
         (User_save l clock new_id salt' us un em pw)"
  by (simp add: User_save_def Let_def)

lemma register_rehash:
  "fst (register l e clock new_id salt (rehash h us) errors rb)
     = fst (register l e clock new_id salt' us errors rb)"
proof -
  have a: "fst (register l e clock new_id salt (rehash h us) errors rb)
     = fst (register l e clock new_id salt us errors rb)"
    using User_save_rehash [of l clock new_id salt h us "rb_username rb" "rb_email rb"
        "rb_password rb"]
    by (auto simp: register_def User_findOne_or_rehash split: option.splits sum.splits)
  have b: "fst (register l e clock new_id salt us errors rb)
     = fst (register l e clock new_id salt' us errors rb)"
    using User_save_salt [of l clock new_id salt us "rb_username rb" "rb_email rb"
        "rb_password rb" salt']
    by (auto simp: register_def split: option.splits sum.splits)
  from a b show ?thesis by simp
qed

lemma login_rehash:
  assumes "\<forall>u \<in> set us. \<forall>p. lb_password lb = JStr p \<longrightarrow>
             bcrypt_compare p (h u) = bcrypt_compare p (u_password u)"
  shows "login l e clock (rehash h us) errors lb = login l e clock us errors lb"
proof (cases "find (\<lambda>u. u_email u = lb_email lb) us")
  case None
  then show ?thesis
    by (simp add: login_def User_findOne_email_def find_rehash)
next
  case (Some u)
  from find_SomeD [OF Some] have mem: "u \<in> set us" by simp
  show ?thesis
  proof (cases "lb_password lb")
    case (JStr p)
    with assms mem have "bcrypt_compare p (h u) = bcrypt_compare p (u_password u)"
      by blast
    with Some JStr show ?thesis
      by (simp add: login_def User_findOne_email_def find_rehash comparePassword_def
          select_plus_password_def)
  qed (use Some in \<open>simp_all add: login_def User_findOne_email_def find_rehash
        comparePassword_def select_plus_password_def\<close>)
qed

lemma taskRoutes_rehash:
  "fst (taskRoutes l e clock new_id (st\<lparr>users := rehash h (users st)\<rparr>) a req)
     = fst (taskRoutes l e clock new_id st a req)"
proof (cases "authenticate l e clock (users st) a")
  case (Responded r)
  then show ?thesis by (simp add: taskRoutes_def authenticate_rehash)
next
  case (NextError err)
  then show ?thesis by (simp add: taskRoutes_def authenticate_rehash)
next
  case (Next ru)
  then show ?thesis
    by (cases req)
      (simp_all add: taskRoutes_def authenticate_rehash createTask_def getTasks_def
        updateTask_def deleteTask_def populate_user_rehash Let_def
        split: sum.splits option.splits prod.splits)
qed


section \<open>Malformed task identifiers\<close>

text \<open>
  C7. For every authenticated PUT or DELETE on /api/tasks/:id whose id is syntactically
  malformed (the store cannot cast it to an identifier), the response status is 400,
  not 500 and not 404, and nothing is written. The malformed id is answered by the
  route's own catch block, before the centralized handler (which would say 404) sees it.
\<close>

theorem malformed_task_id_400:
  assumes "authenticate l e clock (users st) a = Next ru"
      and "castObjectId i = None"
  shows "status (fst (taskRoutes l e clock new_id st a (PUT i errors b))) = 400
       \<and> status (fst (taskRoutes l e clock new_id st a (DELETE i))) = 400
       \<and> snd (taskRoutes l e clock new_id st a (PUT i errors b)) = st
       \<and> snd (taskRoutes l e clock new_id st a (DELETE i)) = st"
  using assms
  by (simp add: taskRoutes_def updateTask_def deleteTask_def Task_findOne_def
      validationFailed_def invalidTaskId_def)

theorem malformed_task_id_400_witness:
  "authenticate exLib exEnv 1000 (users exStore) aliceAuth
     = Next \<lparr>ru_userId = aliceId, ru_user = select_default alice\<rparr>
   \<and> castObjectId ''not-a-valid-id'' = None
   \<and> status (fst (taskRoutes exLib exEnv 1000 bobId exStore aliceAuth
        (PUT ''not-a-valid-id'' [] emptyBody))) = 400
   \<and> status (fst (taskRoutes exLib exEnv 1000 bobId exStore aliceAuth
        (DELETE ''not-a-valid-id''))) = 400"
proof -
  have malformed: "castObjectId ''not-a-valid-id'' = None"
    by (simp add: castObjectId_def)
  from malformed_task_id_400 [OF aliceAuth_passes malformed]
  show ?thesis using aliceAuth_passes malformed by simp
qed

section \<open>Ownership scoping\<close>

text \<open>
  C1. For every authenticated request, task access is ownership-scoped. The response
  to any task request is the same as on the store without the tasks of other owners;
  GET /api/tasks returns exactly the tasks whose owner is the gate-verified identity;
  and a PUT (with a body that passed input validation) or a DELETE naming a well-formed
  id under which the caller owns no task returns 404 with the not-found body and
  writes nothing, whether a task of another owner exists under that id or none does.
  The status is never 403.
\<close>

theorem ownership_scoped_access:
  assumes gate: "authenticate l e clock (users st) a = Next ru"
  shows "fst (taskRoutes l e clock new_id
                (st\<lparr>tasks := filter (\<lambda>t. t_user t = d_id (ru_user ru)) (tasks st)\<rparr>) a req)
           = fst (taskRoutes l e clock new_id st a req)
       \<and> (\<exists>ts. fst (taskRoutes l e clock new_id st a GET)
                  = respond 200
                      (JObj [(''message'', JStr ''Tasks retrieved successfully''),
                             (''count'', JNum (int (length ts))),
                             (''tasks'', JArr (map (\<lambda>t. task_json t (JStr (t_user t))) ts))])
               \<and> set ts = {t \<in> set (tasks st). t_user t = d_id (ru_user ru)})
       \<and> (castObjectId i = Some oid
            \<and> \<not> list_ex (\<lambda>t. t_id t = oid \<and> t_user t = d_id (ru_user ru)) (tasks st) \<longrightarrow>
            taskRoutes l e clock new_id st a (PUT i [] b)
              = (respond 404
                   (JObj [(''error'', JStr ''Task not found''),
                          (''message'',
                           JStr ''Task does not exist or you do not have permission to access it'')]),
                 st)
            \<and> taskRoutes l e clock new_id st a (DELETE i)
              = (respond 404
                   (JObj [(''error'', JStr ''Task not found''),
                          (''message'',
                           JStr ''Task does not exist or you do not have permission to delete it'')]),
                 st))
       \<and> status (fst (taskRoutes l e clock new_id st a req)) \<noteq> 403"
proof (intro conjI impI)
  show "fst (taskRoutes l e clock new_id
                (st\<lparr>tasks := filter (\<lambda>t. t_user t = d_id (ru_user ru)) (tasks st)\<rparr>) a req)
           = fst (taskRoutes l e clock new_id st a req)"
    by (rule taskRoutes_own [OF gate])
next
  show "status (fst (taskRoutes l e clock new_id st a req)) \<noteq> 403"
    using status_taskRoutes [of l e clock new_id st a req] by auto
next
  let ?ts = "rev (sort_key t_createdAt (filter (\<lambda>t. t_user t = d_id (ru_user ru)) (tasks st)))"
  have "fst (taskRoutes l e clock new_id st a GET)
          = respond 200
              (JObj [(''message'', JStr ''Tasks retrieved successfully''),
                     (''count'', JNum (int (length ?ts))),
                     (''tasks'', JArr (map (\<lambda>t. task_json t (JStr (t_user t))) ?ts))])"
    using gate authenticate_Next_id [OF gate]
    by (simp add: taskRoutes_def getTasks_def Task_find_def)
  moreover have "set ?ts = {t \<in> set (tasks st). t_user t = d_id (ru_user ru)}"
    by auto
  ultimately show "\<exists>ts. fst (taskRoutes l e clock new_id st a GET)
                  = respond 200
                      (JObj [(''message'', JStr ''Tasks retrieved successfully''),
                             (''count'', JNum (int (length ts))),
                             (''tasks'', JArr (map (\<lambda>t. task_json t (JStr (t_user t))) ts))])
               \<and> set ts = {t \<in> set (tasks st). t_user t = d_id (ru_user ru)}"
    by blast
next
  assume h: "castObjectId i = Some oid
            \<and> \<not> list_ex (\<lambda>t. t_id t = oid \<and> t_user t = d_id (ru_user ru)) (tasks st)"
  then have none: "Task_findOne (tasks st) i (ru_userId ru) = Inr None"
    using authenticate_Next_id [OF gate]
    by (simp add: Task_findOne_def find_None_list_ex)
  show "taskRoutes l e clock new_id st a (PUT i [] b)
              = (respond 404
                   (JObj [(''error'', JStr ''Task not found''),
                          (''message'',
                           JStr ''Task does not exist or you do not have permission to access it'')]),
                 st)"
    using gate none by (simp add: taskRoutes_def updateTask_def)
  show "taskRoutes l e clock new_id st a (DELETE i)
              = (respond 404
                   (JObj [(''error'', JStr ''Task not found''),
                          (''message'',
                           JStr ''Task does not exist or you do not have permission to delete it'')]),
                 st)"
    using gate none by (simp add: taskRoutes_def deleteTask_def)
qed

theorem ownership_scoped_access_witness:
  "authenticate exLib exEnv 1000 (users exStore) bobAuth
     = Next \<lparr>ru_userId = bobId, ru_user = select_default bob\<rparr>
   \<and> castObjectId ''111111111111111111111111'' = Some (t_id milk)
   \<and> list_ex (\<lambda>t. t_id t = t_id milk \<and> t_user t = aliceId) (tasks exStore)
   \<and> \<not> list_ex (\<lambda>t. t_id t = t_id milk \<and> t_user t = bobId) (tasks exStore)
   \<and> status (fst (taskRoutes exLib exEnv 1000 carolId exStore bobAuth
        (PUT ''111111111111111111111111'' [] emptyBody))) = 404
   \<and> status (fst (taskRoutes exLib exEnv 1000 carolId exStore bobAuth
        (DELETE ''111111111111111111111111''))) = 404
   \<and> snd (taskRoutes exLib exEnv 1000 carolId exStore bobAuth
        (DELETE ''111111111111111111111111'')) = exStore"
proof -
  let ?ru = "\<lparr>ru_userId = bobId, ru_user = select_default bob\<rparr>"
  have wf: "castObjectId ''111111111111111111111111'' = Some (t_id milk)"
    by (simp add: id_defs milk_def)
  have hers: "list_ex (\<lambda>t. t_id t = t_id milk \<and> t_user t = aliceId) (tasks exStore)"
    by (simp add: example_defs)
  have "d_id (ru_user ?ru) = bobId"
    by (simp add: select_default_def bob_def)
  moreover have "\<not> list_ex (\<lambda>t. t_id t = t_id milk \<and> t_user t = bobId) (tasks exStore)"
    by (simp add: example_defs)
  ultimately have
    foreign: "\<not> list_ex (\<lambda>t. t_id t = t_id milk \<and> t_user t = d_id (ru_user ?ru)) (tasks exStore)"
    and not_his: "\<not> list_ex (\<lambda>t. t_id t = t_id milk \<and> t_user t = bobId) (tasks exStore)"
    by simp_all
  note th = ownership_scoped_access [OF bobAuth_passes,
      where i = "''111111111111111111111111''" and oid = "t_id milk" and new_id = carolId
        and b = emptyBody]
  have put: "taskRoutes exLib exEnv 1000 carolId exStore bobAuth
               (PUT ''111111111111111111111111'' [] emptyBody)
             = (respond 404
                  (JObj [(''error'', JStr ''Task not found''),
                         (''message'',
                          JStr ''Task does not exist or you do not have permission to access it'')]),
                exStore)"
    using th wf foreign by blast
  have del: "taskRoutes exLib exEnv 1000 carolId exStore bobAuth
               (DELETE ''111111111111111111111111'')
             = (respond 404
                  (JObj [(''error'', JStr ''Task not found''),
                         (''message'',
                          JStr ''Task does not exist or you do not have permission to delete it'')]),
                exStore)"
    using th wf foreign by blast
  show ?thesis
    using bobAuth_passes wf hers not_his by (simp add: put del)
qed

section \<open>Selective update\<close>

text \<open>
  C8. For every task owned by the authenticated caller (a stored task meets its
  schema), a PUT /api/tasks/:id with an empty body returns 200 with the task and the
  store unchanged. Whenever a PUT succeeds, each of title, description and completed
  keeps its prior value unless the body carries that field (then it is the trimmed
  string, or the boolean, of the body); the identifier, the owner and the creation
  time never change.
\<close>

theorem update_touches_only_given_fields:
  assumes gate: "authenticate l e clock (users st) a = Next ru"
      and owned: "Task_findOne (tasks st) i (ru_userId ru) = Inr (Some t)"
  shows "(taskSchema_validate (Some (t_title t)) (t_description t) = [] \<longrightarrow>
            taskRoutes l e clock new_id st a
              (PUT i [] \<lparr>tb_title = None, tb_description = None, tb_completed = None\<rparr>)
            = (respond 200
                 (JObj [(''message'', JStr ''Task updated successfully''),
                        (''task'', task_json t (JStr (t_user t)))]),
               st))
       \<and> (status (fst (taskRoutes l e clock new_id st a (PUT i errors b))) = 200 \<longrightarrow>
            (\<exists>t'. taskRoutes l e clock new_id st a (PUT i errors b)
                    = (respond 200
                         (JObj [(''message'', JStr ''Task updated successfully''),
                                (''task'', task_json t' (JStr (t_user t')))]),
                       st\<lparr>tasks := (if t' = t then tasks st
                                     else replace_first (\<lambda>x. t_id x = t_id t) t' (tasks st))\<rparr>)
                 \<and> t_id t' = t_id t \<and> t_user t' = t_user t \<and> t_createdAt t' = t_createdAt t
                 \<and> t_title t' = (case tb_title b of None \<Rightarrow> t_title t | Some x \<Rightarrow> trim x)
                 \<and> t_description t'
                     = (case tb_description b of None \<Rightarrow> t_description t | Some x \<Rightarrow> trim x)
                 \<and> t_completed t'
                     = (case tb_completed b of None \<Rightarrow> t_completed t | Some x \<Rightarrow> x)))"
proof (intro conjI impI)
  assume "taskSchema_validate (Some (t_title t)) (t_description t) = []"
  then show "taskRoutes l e clock new_id st a
              (PUT i [] \<lparr>tb_title = None, tb_description = None, tb_completed = None\<rparr>)
            = (respond 200
                 (JObj [(''message'', JStr ''Task updated successfully''),
                        (''task'', task_json t (JStr (t_user t)))]),
               st)"
    using gate owned by (simp add: taskRoutes_def updateTask_def Task_save_def)
next
  assume ok: "status (fst (taskRoutes l e clock new_id st a (PUT i errors b))) = 200"
  have errs: "errors = []"
  proof (rule ccontr)
    assume "errors \<noteq> []"
    with ok gate show False by (simp add: taskRoutes_def updateTask_def)
  qed
  have route: "taskRoutes l e clock new_id st a (PUT i errors b)
         = (case Task_save clock (tasks st) t (assignFields t b) of
              Inl err \<Rightarrow> (catchCastError e err, st)
            | Inr (saved, ts') \<Rightarrow>
                (respond 200
                   (JObj [(''message'', JStr ''Task updated successfully''),
                          (''task'', task_json saved (JStr (t_user saved)))]),
                 st\<lparr>tasks := ts'\<rparr>))"
    using gate owned errs by (simp add: taskRoutes_def updateTask_def)
  show "\<exists>t'. taskRoutes l e clock new_id st a (PUT i errors b)
                    = (respond 200
                         (JObj [(''message'', JStr ''Task updated successfully''),
                                (''task'', task_json t' (JStr (t_user t')))]),
                       st\<lparr>tasks := (if t' = t then tasks st
                                     else replace_first (\<lambda>x. t_id x = t_id t) t' (tasks st))\<rparr>)
                 \<and> t_id t' = t_id t \<and> t_user t' = t_user t \<and> t_createdAt t' = t_createdAt t
                 \<and> t_title t' = (case tb_title b of None \<Rightarrow> t_title t | Some x \<Rightarrow> trim x)
                 \<and> t_description t'
                     = (case tb_description b of None \<Rightarrow> t_description t | Some x \<Rightarrow> trim x)
                 \<and> t_completed t'
                     = (case tb_completed b of None \<Rightarrow> t_completed t | Some x \<Rightarrow> x)"
  proof (cases "Task_save clock (tasks st) t (assignFields t b)")
    case (Inl err)
    with ok route Task_save_Inl [OF Inl, of e] show ?thesis by simp
  next
    case (Inr p)
    obtain saved ts' where p: "p = (saved, ts')" by (cases p)
    have upd: "t_updatedAt (assignFields t b) = t_updatedAt t"
      by (simp add: assignFields_eq)
    from Task_save_Inr [OF Inr [unfolded p] upd]
    have saved: "saved = (if assignFields t b = t then t else (assignFields t b)\<lparr>t_updatedAt := clock\<rparr>)"
      and ts': "ts' = (if saved = t then tasks st
                       else replace_first (\<lambda>x. t_id x = t_id (assignFields t b)) saved (tasks st))"
      by simp_all
    have id: "t_id (assignFields t b) = t_id t"
      by (simp add: assignFields_eq)
    have fields: "t_id saved = t_id t \<and> t_user saved = t_user t \<and> t_createdAt saved = t_createdAt t
        \<and> t_title saved = (case tb_title b of None \<Rightarrow> t_title t | Some x \<Rightarrow> trim x)
        \<and> t_description saved
            = (case tb_description b of None \<Rightarrow> t_description t | Some x \<Rightarrow> trim x)
        \<and> t_completed saved = (case tb_completed b of None \<Rightarrow> t_completed t | Some x \<Rightarrow> x)"
    proof (cases "assignFields t b = t")
      case True
      then have "saved = assignFields t b" using saved by simp
      then show ?thesis by (simp add: assignFields_eq)
    next
      case False
      then have "saved = (assignFields t b)\<lparr>t_updatedAt := clock\<rparr>" using saved by simp
      then show ?thesis by (simp add: assignFields_eq)
    qed
    have "taskRoutes l e clock new_id st a (PUT i errors b)
            = (respond 200
                 (JObj [(''message'', JStr ''Task updated successfully''),
                        (''task'', task_json saved (JStr (t_user saved)))]),
               st\<lparr>tasks := (if saved = t then tasks st
                             else replace_first (\<lambda>x. t_id x = t_id t) saved (tasks st))\<rparr>)"
      using route Inr p ts' id by simp
    with fields show ?thesis by blast
  qed
qed

theorem update_touches_only_given_fields_witness:
  "authenticate exLib exEnv 1000 (users exStore) aliceAuth
     = Next \<lparr>ru_userId = aliceId, ru_user = select_default alice\<rparr>
   \<and> Task_findOne (tasks exStore) ''111111111111111111111111''
        (ru_userId \<lparr>ru_userId = aliceId, ru_user = select_default alice\<rparr>) = Inr (Some milk)
   \<and> taskSchema_validate (Some (t_title milk)) (t_description milk) = []
   \<and> taskRoutes exLib exEnv 1000 carolId exStore aliceAuth
        (PUT ''111111111111111111111111'' [] emptyBody)
       = (respond 200
            (JObj [(''message'', JStr ''Task updated successfully''),
                   (''task'', task_json milk (JStr (t_user milk)))]),
          exStore)
   \<and> status (fst (taskRoutes exLib exEnv 1000 carolId exStore aliceAuth
        (PUT ''111111111111111111111111'' []
           \<lparr>tb_title = None, tb_description = None, tb_completed = Some True\<rparr>))) = 200
   \<and> (\<exists>t'. fst (taskRoutes exLib exEnv 1000 carolId exStore aliceAuth
                (PUT ''111111111111111111111111'' []
                   \<lparr>tb_title = None, tb_description = None, tb_completed = Some True\<rparr>))
              = respond 200
                  (JObj [(''message'', JStr ''Task updated successfully''),
                         (''task'', task_json t' (JStr (t_user t')))])
           \<and> t_title t' = ''Buy milk'' \<and> t_description t' = [] \<and> t_completed t')"
proof -
  let ?b = "\<lparr>tb_title = None, tb_description = None, tb_completed = Some True\<rparr>"
  have valid: "taskSchema_validate (Some (t_title milk)) (t_description milk) = []"
    by (simp add: taskSchema_validate_def milk_def)
  have ok: "status (fst (taskRoutes exLib exEnv 1000 carolId exStore aliceAuth
        (PUT ''111111111111111111111111'' [] ?b))) = 200"
    using milk_found valid
    by (simp add: taskRoutes_def aliceAuth_passes updateTask_def Task_save_def Let_def
        assignFields_def)
  note th = update_touches_only_given_fields [OF aliceAuth_passes milk_found,
      where new_id = carolId and errors = "[]" and b = ?b]
  have unchanged: "taskRoutes exLib exEnv 1000 carolId exStore aliceAuth
        (PUT ''111111111111111111111111'' [] emptyBody)
       = (respond 200
            (JObj [(''message'', JStr ''Task updated successfully''),
                   (''task'', task_json milk (JStr (t_user milk)))]),
          exStore)"
    using th valid unfolding emptyBody_def by blast
  from th ok obtain t' where
    "taskRoutes exLib exEnv 1000 carolId exStore aliceAuth (PUT ''111111111111111111111111'' [] ?b)
       = (respond 200
            (JObj [(''message'', JStr ''Task updated successfully''),
                   (''task'', task_json t' (JStr (t_user t')))]),
          exStore\<lparr>tasks := (if t' = milk then tasks exStore
                             else replace_first (\<lambda>x. t_id x = t_id milk) t' (tasks exStore))\<rparr>)"
    and "t_title t' = (case tb_title ?b of None \<Rightarrow> t_title milk | Some x \<Rightarrow> trim x)"
    and "t_description t' = (case tb_description ?b of None \<Rightarrow> t_description milk | Some x \<Rightarrow> trim x)"
    and "t_completed t' = (case tb_completed ?b of None \<Rightarrow> t_completed milk | Some x \<Rightarrow> x)"
    by blast
  then have kept: "\<exists>t'. fst (taskRoutes exLib exEnv 1000 carolId exStore aliceAuth
                (PUT ''111111111111111111111111'' [] ?b))
              = respond 200
                  (JObj [(''message'', JStr ''Task updated successfully''),
                         (''task'', task_json t' (JStr (t_user t')))])
           \<and> t_title t' = ''Buy milk'' \<and> t_description t' = [] \<and> t_completed t'"
    by (intro exI [of _ t']) (simp add: milk_def)
  show ?thesis
    using aliceAuth_passes milk_found valid unchanged ok kept by blast
qed

section \<open>The decisions of the identity gate\<close>

text \<open>
  What \<^verbatim>\<open>authenticate\<close> decides when the verified token embeds a well-formed
  store identifier: it answers 401 for a header that is absent or does not start with
  \<^verbatim>\<open>Bearer \<close>, 401 with one message for every token that fails verification, and
  401 when no user is stored under the embedded identifier; otherwise it attaches the
  identity and the user, and the route's handler runs. A response of the gate itself
  always has status 401 and falls under one of these three cases.
\<close>

theorem gate_decision:
  "(authorization = None \<or> (\<exists>h. authorization = Some h \<and> \<not> startsWith h ''Bearer '') \<longrightarrow>
      authenticate l e clock us authorization
        = Responded (unauthorized
            ''No token provided. Please include a Bearer token in the Authorization header.''))
   \<and> ((\<exists>err. jwt_verify l clock tok (JWT_SECRET_middleware e) = Inl err) \<longrightarrow>
        authenticate l e clock us (Some (''Bearer '' @ tok))
          = Responded (unauthorized ''Invalid or expired token''))
   \<and> (jwt_verify l clock tok (JWT_SECRET_middleware e) = Inr j
        \<and> castObjectId (jwt_userId j) = Some oid \<longrightarrow>
        authenticate l e clock us (Some (''Bearer '' @ tok))
          = (case find (\<lambda>u. u_id u = oid) us of
               None \<Rightarrow> Responded (unauthorized ''User no longer exists'')
             | Some u \<Rightarrow> Next \<lparr>ru_userId = jwt_userId j, ru_user = select_default u\<rparr>))
   \<and> status (unauthorized m) = 401
   \<and> (authenticate l e clock us authorization = Responded r \<longrightarrow>
        status r = 401
        \<and> ((authorization = None \<or> (\<exists>h. authorization = Some h \<and> \<not> startsWith h ''Bearer ''))
           \<or> (\<exists>t err. authorization = Some (''Bearer '' @ t)
                 \<and> jwt_verify l clock t (JWT_SECRET_middleware e) = Inl err)
           \<or> (\<exists>t d i. authorization = Some (''Bearer '' @ t)
                 \<and> jwt_verify l clock t (JWT_SECRET_middleware e) = Inr d
                 \<and> castObjectId (jwt_userId d) = Some i
                 \<and> find (\<lambda>u. u_id u = i) us = None)))
   \<and> (authenticate l e clock (users st) authorization = Next ru \<longrightarrow>
        taskRoutes l e clock new_id st authorization req
          = (case req of
               POST errors b \<Rightarrow> createTask e clock new_id st ru errors b
             | GET \<Rightarrow> (getTasks e st ru, st)
             | PUT i errors b \<Rightarrow> updateTask e clock st ru i errors b
             | DELETE i \<Rightarrow> deleteTask e st ru i))
   \<and> (authenticate l e clock (users st) authorization = Responded r \<longrightarrow>
        taskRoutes l e clock new_id st authorization req = (r, st))"
proof (intro conjI impI)
  assume "authorization = None \<or> (\<exists>h. authorization = Some h \<and> \<not> startsWith h ''Bearer '')"
  then show "authenticate l e clock us authorization
        = Responded (unauthorized
            ''No token provided. Please include a Bearer token in the Authorization header.'')"
    by (rule authenticate_no_header)
next
  assume "\<exists>err. jwt_verify l clock tok (JWT_SECRET_middleware e) = Inl err"
  then show "authenticate l e clock us (Some (''Bearer '' @ tok))
          = Responded (unauthorized ''Invalid or expired token'')"
    unfolding authenticate_bearer by auto
next
  assume "jwt_verify l clock tok (JWT_SECRET_middleware e) = Inr j
        \<and> castObjectId (jwt_userId j) = Some oid"
  then show "authenticate l e clock us (Some (''Bearer '' @ tok))
          = (case find (\<lambda>u. u_id u = oid) us of
               None \<Rightarrow> Responded (unauthorized ''User no longer exists'')
             | Some u \<Rightarrow> Next \<lparr>ru_userId = jwt_userId j, ru_user = select_default u\<rparr>)"
    unfolding authenticate_bearer by (simp add: User_findById_def split: option.splits)
next
  show "status (unauthorized m) = 401" by simp
next
  assume r: "authenticate l e clock us authorization = Responded r"
  show "status r = 401"
    using r by (auto simp: authenticate_def Let_def split: option.splits if_splits sum.splits)
  show "(authorization = None \<or> (\<exists>h. authorization = Some h \<and> \<not> startsWith h ''Bearer ''))
           \<or> (\<exists>t err. authorization = Some (''Bearer '' @ t)
                 \<and> jwt_verify l clock t (JWT_SECRET_middleware e) = Inl err)
           \<or> (\<exists>t d i. authorization = Some (''Bearer '' @ t)
                 \<and> jwt_verify l clock t (JWT_SECRET_middleware e) = Inr d
                 \<and> castObjectId (jwt_userId d) = Some i
                 \<and> find (\<lambda>u. u_id u = i) us = None)"
  proof (cases "authorization = None \<or> (\<exists>h. authorization = Some h \<and> \<not> startsWith h ''Bearer '')")
    case True
    then show ?thesis by blast
  next
    case False
    then obtain h where h: "authorization = Some h" "startsWith h ''Bearer ''"
      by auto
    then obtain t where t: "h = ''Bearer '' @ t"
      using startsWith_append by blast
    show ?thesis
    proof (cases "jwt_verify l clock t (JWT_SECRET_middleware e)")
      case (Inl err)
      with h t show ?thesis by blast
    next
      case (Inr d)
      from r h t have "authenticate l e clock us (Some (''Bearer '' @ t)) = Responded r"
        by simp
      with Inr obtain i where "castObjectId (jwt_userId d) = Some i"
        "find (\<lambda>u. u_id u = i) us = None"
        unfolding authenticate_bearer
        by (auto simp: User_findById_def split: option.splits)
      with Inr h t show ?thesis by blast
    qed
  qed
next
  assume "authenticate l e clock (users st) authorization = Next ru"
  then show "taskRoutes l e clock new_id st authorization req
          = (case req of
               POST errors b \<Rightarrow> createTask e clock new_id st ru errors b
             | GET \<Rightarrow> (getTasks e st ru, st)
             | PUT i errors b \<Rightarrow> updateTask e clock st ru i errors b
             | DELETE i \<Rightarrow> deleteTask e st ru i)"
    by (simp add: taskRoutes_def)
next
  assume "authenticate l e clock (users st) authorization = Responded r"
  then show "taskRoutes l e clock new_id st authorization req = (r, st)"
    by (simp add: taskRoutes_def)
qed

theorem gate_decision_witness:
  "authenticate exLib exEnv 1000 (users exStore) None
     = Responded (unauthorized
         ''No token provided. Please include a Bearer token in the Authorization header.'')
   \<and> jwt_verify exLib 700000000 ''jwt.aaaaaaaaaaaaaaaaaaaaaaaa'' (JWT_SECRET_middleware exEnv)
       = Inl (mkError ''TokenExpiredError'' ''jwt expired'')
   \<and> authenticate exLib exEnv 700000000 (users exStore)
        (Some (''Bearer '' @ ''jwt.aaaaaaaaaaaaaaaaaaaaaaaa''))
       = Responded (unauthorized ''Invalid or expired token'')
   \<and> jwt_verify exLib 1000 ''jwt.cccccccccccccccccccccccc'' (JWT_SECRET_middleware exEnv)
       = Inr \<lparr>jwt_userId = carolId, jwt_iat = 1, jwt_exp = 604801,
              jwt_key = ''your-secret-key-change-in-production''\<rparr>
   \<and> castObjectId carolId = Some carolId
   \<and> find (\<lambda>u. u_id u = carolId) (users exStore) = None
   \<and> authenticate exLib exEnv 1000 (users exStore)
        (Some (''Bearer '' @ ''jwt.cccccccccccccccccccccccc''))
       = Responded (unauthorized ''User no longer exists'')
   \<and> authenticate exLib exEnv 1000 (users exStore) aliceAuth
       = Next \<lparr>ru_userId = aliceId, ru_user = select_default alice\<rparr>
   \<and> taskRoutes exLib exEnv 1000 carolId exStore aliceAuth GET
       = (getTasks exEnv exStore \<lparr>ru_userId = aliceId, ru_user = select_default alice\<rparr>,
          exStore)"
proof -
  let ?ja = "\<lparr>jwt_userId = aliceId, jwt_iat = 1, jwt_exp = 604801,
              jwt_key = ''your-secret-key-change-in-production''\<rparr>"
  let ?jc = "\<lparr>jwt_userId = carolId, jwt_iat = 1, jwt_exp = 604801,
              jwt_key = ''your-secret-key-change-in-production''\<rparr>"
  have expired: "jwt_verify exLib 700000000 ''jwt.aaaaaaaaaaaaaaaaaaaaaaaa''
                   (JWT_SECRET_middleware exEnv)
                 = Inl (mkError ''TokenExpiredError'' ''jwt expired'')"
    by (simp add: jwt_verify_def JWT_SECRET_middleware_def startsWith_def exLib_def exEnv_def)
  have stale: "jwt_verify exLib 1000 ''jwt.cccccccccccccccccccccccc''
                   (JWT_SECRET_middleware exEnv) = Inr ?jc"
    by (simp add: jwt_verify_def JWT_SECRET_middleware_def startsWith_def exLib_def exEnv_def
        carolId_def)
  have wf: "castObjectId carolId = Some carolId"
    by (simp add: id_defs carolId_def)
  have wf': "castObjectId (jwt_userId ?jc) = Some carolId"
    using wf by simp
  have gone: "find (\<lambda>u. u_id u = carolId) (users exStore) = None"
    by (simp add: example_defs)
  note none = gate_decision [where authorization = None and l = exLib and e = exEnv
      and clock = 1000 and us = "users exStore"]
  note exp = gate_decision [where l = exLib and e = exEnv and clock = 700000000
      and us = "users exStore" and tok = "''jwt.aaaaaaaaaaaaaaaaaaaaaaaa''"]
  note old = gate_decision [where l = exLib and e = exEnv and clock = 1000
      and us = "users exStore" and tok = "''jwt.cccccccccccccccccccccccc''" and j = ?jc
      and oid = carolId]
  note pass = gate_decision [where l = exLib and e = exEnv and clock = 1000
      and st = exStore and authorization = aliceAuth and new_id = carolId and req = GET
      and ru = "\<lparr>ru_userId = aliceId, ru_user = select_default alice\<rparr>"]
  have g1: "authenticate exLib exEnv 1000 (users exStore) None
     = Responded (unauthorized
         ''No token provided. Please include a Bearer token in the Authorization header.'')"
    using none by blast
  have g2: "authenticate exLib exEnv 700000000 (users exStore)
        (Some (''Bearer '' @ ''jwt.aaaaaaaaaaaaaaaaaaaaaaaa''))
       = Responded (unauthorized ''Invalid or expired token'')"
    using exp expired by blast
  have g3: "authenticate exLib exEnv 1000 (users exStore)
        (Some (''Bearer '' @ ''jwt.cccccccccccccccccccccccc''))
       = Responded (unauthorized ''User no longer exists'')"
    using old stale wf' gone by simp
  have g4: "taskRoutes exLib exEnv 1000 carolId exStore aliceAuth GET
       = (getTasks exEnv exStore \<lparr>ru_userId = aliceId, ru_user = select_default alice\<rparr>,
          exStore)"
    using pass aliceAuth_passes by simp
  show ?thesis
    using g1 expired g2 stale wf gone g3 aliceAuth_passes g4 by blast
qed

text \<open>
  C2. For every protected request, the identity gate rejects with status 401 in exactly
  three cases, checked in order (no Bearer header; a token that fails verification or
  is expired; a verified token whose embedded identity matches no existing user
  record), and otherwise attaches the verified identity and lets the task handler run.
  The code departs from this at a token that verifies but embeds an identity the store
  cannot cast (anyone can sign one when no secret is configured, the fallback being
  public): no user record matches it, yet the lookup throws, \<^verbatim>\<open>authenticate\<close> hands
  the error to \<^verbatim>\<open>next\<close>, and the centralized handler answers 404
  \<^verbatim>\<open>Resource not found\<close>; the task handler does not run.
\<close>

theorem gate_malformed_identity_404:
  "startsWith ''Bearer jwt.abc'' ''Bearer ''
   \<and> jwt_verify exLib 1000 (drop 7 ''Bearer jwt.abc'') (JWT_SECRET_middleware exEnv)
       = Inr \<lparr>jwt_userId = ''abc'', jwt_iat = 1, jwt_exp = 604801,
              jwt_key = ''your-secret-key-change-in-production''\<rparr>
   \<and> \<not> list_ex (\<lambda>u. u_id u = ''abc'') (users exStore)
   \<and> authenticate exLib exEnv 1000 (users exStore) (Some ''Bearer jwt.abc'')
       = NextError (CastError ''abc'' ''_id'' ''User'')
   \<and> taskRoutes exLib exEnv 1000 carolId exStore (Some ''Bearer jwt.abc'') GET
       = (respond 404 (JObj [(''success'', JBool False), (''error'', JStr ''Resource not found'')]),
          exStore)"
  by (simp add: taskRoutes_def gate_defs example_defs errorHandler_def CastError_def
      mkError_def Let_def)


section \<open>Login failures\<close>

text \<open>
  C3. Login with a registered email but a wrong password and login with an unregistered
  email produce identical failure responses, status 401 with the body
  \<^verbatim>\<open>Invalid credentials\<close> / \<^verbatim>\<open>Email or password is incorrect\<close>, so that the
  response does not reveal whether the email is registered. The code departs from this
  at a password that is not a string: the login route validates the password with
  \<^verbatim>\<open>notEmpty()\<close> only, so a JSON number passes validation and reaches
  \<^verbatim>\<open>bcrypt.compare\<close>, which throws on it. With the wrong password
  \<^verbatim>\<open>12345\<close> (a number), the registered email \<^verbatim>\<open>alice@example.com\<close> is
  answered 500 with the thrown message by the centralized handler, and the unregistered
  email \<^verbatim>\<open>carol@example.com\<close> is answered 401 with the credentials message: the
  two responses differ, and they tell which email is registered.
\<close>

theorem login_nonstring_password_500:
  "find (\<lambda>u. u_email u = ''alice@example.com'') [alice, bob] = Some alice
   \<and> find (\<lambda>u. u_email u = ''carol@example.com'') [alice, bob] = None
   \<and> login exLib exEnv 1000 [alice, bob] []
        \<lparr>lb_email = ''alice@example.com'', lb_password = JNum 12345\<rparr>
       = respond 500
           (JObj [(''success'', JBool False),
                  (''error'', JStr ''Illegal arguments: number, string'')])
   \<and> login exLib exEnv 1000 [alice, bob] []
        \<lparr>lb_email = ''carol@example.com'', lb_password = JNum 12345\<rparr>
       = respond 401
           (JObj [(''error'', JStr ''Invalid credentials''),
                  (''message'', JStr ''Email or password is incorrect'')])"
  by (simp add: login_def User_findOne_email_def comparePassword_def select_plus_password_def
      select_default_def errorHandler_def mkError_def Let_def exEnv_def alice_def bob_def)

text \<open>
  When the password is a string the two failures are identical, whatever the stores,
  clocks and configurations of the two requests are, and the response to a failed
  login does not depend on the store at all.
\<close>

theorem login_string_failures_identical:
  "(find (\<lambda>u. u_email u = lb_email b1) us1 = None
    \<and> find (\<lambda>u. u_email u = lb_email b2) us2 = Some u
    \<and> lb_password b2 = JStr p
    \<and> \<not> bcrypt_compare p (u_password u) \<longrightarrow>
      login l1 e1 c1 us1 [] b1 = login l2 e2 c2 us2 [] b2
      \<and> status (login l1 e1 c1 us1 [] b1) = 401
      \<and> body (login l1 e1 c1 us1 [] b1) =
           JObj [(''error'', JStr ''Invalid credentials''),
                 (''message'', JStr ''Email or password is incorrect'')])
   \<and> (lb_password b = JStr p
       \<and> status (login l1 e1 c1 us1 errors b) \<noteq> 200
       \<and> status (login l2 e2 c2 us2 errors b) \<noteq> 200 \<longrightarrow>
        login l1 e1 c1 us1 errors b = login l2 e2 c2 us2 errors b)"
proof (intro conjI impI)
  assume a: "find (\<lambda>u. u_email u = lb_email b1) us1 = None
    \<and> find (\<lambda>u. u_email u = lb_email b2) us2 = Some u
    \<and> lb_password b2 = JStr p
    \<and> \<not> bcrypt_compare p (u_password u)"
  then show "login l1 e1 c1 us1 [] b1 = login l2 e2 c2 us2 [] b2"
    and "status (login l1 e1 c1 us1 [] b1) = 401"
    and "body (login l1 e1 c1 us1 [] b1) =
           JObj [(''error'', JStr ''Invalid credentials''),
                 (''message'', JStr ''Email or password is incorrect'')]"
    by (simp_all add: login_def User_findOne_email_def comparePassword_def
        select_plus_password_def)
next
  assume "lb_password b = JStr p
       \<and> status (login l1 e1 c1 us1 errors b) \<noteq> 200
       \<and> status (login l2 e2 c2 us2 errors b) \<noteq> 200"
  then show "login l1 e1 c1 us1 errors b = login l2 e2 c2 us2 errors b"
    using login_failed [of l1 e1 c1 us1 errors b p] login_failed [of l2 e2 c2 us2 errors b p]
    by simp
qed


section \<open>Token issuance and expiry\<close>

text \<open>
  C4. A session token issued at registration or login embeds the user identity and an
  expiry exactly 7 days (604800 seconds) after the second of issuance. On every
  protected route a token whose embedded expiry is in the past is rejected with 401,
  whatever its signature, and nothing is written. A token within its validity window,
  signed with the server's secret, verifies to the token that embeds the identity; when
  that identity is a well-formed identifier of a stored user the gate lets the request
  through with that identity and that user's default read attached, the route's handler
  runs for them, and the answer is not 401. With a token library that reads back what
  it writes, a token the server issued verifies to the issued identity at any time
  before the seventh day has passed, and is answered 401 on every protected route at
  any time after it.
\<close>

theorem token_expiry:
  "(status (fst (register l e clock new_id salt us errors rb)) = 201 \<longrightarrow>
      field ''token'' (body (fst (register l e clock new_id salt us errors rb)))
        = Some (JStr (jwt_encode l
            \<lparr>jwt_userId = new_id, jwt_iat = clock div 1000,
             jwt_exp = clock div 1000 + 7 * 24 * 60 * 60,
             jwt_key = JWT_SECRET_routes e\<rparr>)))
   \<and> (status (login l e clock us errors lb) = 200 \<longrightarrow>
        (\<exists>u. find (\<lambda>u. u_email u = lb_email lb) us = Some u
           \<and> field ''token'' (body (login l e clock us errors lb))
               = Some (JStr (jwt_encode l
                   \<lparr>jwt_userId = u_id u, jwt_iat = clock div 1000,
                    jwt_exp = clock div 1000 + 7 * 24 * 60 * 60,
                    jwt_key = JWT_SECRET_routes e\<rparr>))))
   \<and> (jwt_decode l tok = Some j \<and> jwt_exp j < clock div 1000 \<longrightarrow>
        status (fst (taskRoutes l e clock new_id st (Some (''Bearer '' @ tok)) req)) = 401
        \<and> snd (taskRoutes l e clock new_id st (Some (''Bearer '' @ tok)) req) = st)
   \<and> (jwt_decode l tok = Some j \<and> jwt_key j = JWT_SECRET_middleware e
        \<and> clock div 1000 < jwt_exp j \<longrightarrow>
        jwt_verify l clock tok (JWT_SECRET_middleware e) = Inr j)
   \<and> (jwt_decode l tok = Some j \<and> jwt_key j = JWT_SECRET_middleware e
        \<and> clock div 1000 < jwt_exp j
        \<and> castObjectId (jwt_userId j) = Some oid
        \<and> find (\<lambda>u. u_id u = oid) (users st) = Some u \<longrightarrow>
        authenticate l e clock (users st) (Some (''Bearer '' @ tok))
          = Next \<lparr>ru_userId = jwt_userId j, ru_user = select_default u\<rparr>
        \<and> taskRoutes l e clock new_id st (Some (''Bearer '' @ tok)) req
          = (case req of
               POST errors b \<Rightarrow>
                 createTask e clock new_id st
                   \<lparr>ru_userId = jwt_userId j, ru_user = select_default u\<rparr> errors b
             | GET \<Rightarrow>
                 (getTasks e st \<lparr>ru_userId = jwt_userId j, ru_user = select_default u\<rparr>, st)
             | PUT i errors b \<Rightarrow>
                 updateTask e clock st
                   \<lparr>ru_userId = jwt_userId j, ru_user = select_default u\<rparr> i errors b
             | DELETE i \<Rightarrow>
                 deleteTask e st \<lparr>ru_userId = jwt_userId j, ru_user = select_default u\<rparr> i)
        \<and> status (fst (taskRoutes l e clock new_id st (Some (''Bearer '' @ tok)) req)) \<noteq> 401)
   \<and> ((\<forall>j'. jwt_decode l (jwt_encode l j') = Some j') \<longrightarrow>
        (clock2 div 1000 < clock div 1000 + 7 * 24 * 60 * 60 \<longrightarrow>
           jwt_verify l clock2 (generateToken l e clock uid) (JWT_SECRET_middleware e)
             = Inr \<lparr>jwt_userId = uid, jwt_iat = clock div 1000,
                     jwt_exp = clock div 1000 + 7 * 24 * 60 * 60,
                     jwt_key = JWT_SECRET_middleware e\<rparr>)
        \<and> (clock div 1000 + 7 * 24 * 60 * 60 < clock2 div 1000 \<longrightarrow>
             status (fst (taskRoutes l e clock2 new_id st
                       (Some (''Bearer '' @ generateToken l e clock uid)) req)) = 401))"
proof (intro conjI impI)
  assume "status (fst (register l e clock new_id salt us errors rb)) = 201"
  from register_created [OF this]
  show "field ''token'' (body (fst (register l e clock new_id salt us errors rb)))
        = Some (JStr (jwt_encode l
            \<lparr>jwt_userId = new_id, jwt_iat = clock div 1000,
             jwt_exp = clock div 1000 + 7 * 24 * 60 * 60,
             jwt_key = JWT_SECRET_routes e\<rparr>))"
    by (auto simp: generateToken_def jwt_sign_def)
next
  assume "status (login l e clock us errors lb) = 200"
  from login_ok [OF this]
  show "\<exists>u. find (\<lambda>u. u_email u = lb_email lb) us = Some u
           \<and> field ''token'' (body (login l e clock us errors lb))
               = Some (JStr (jwt_encode l
                   \<lparr>jwt_userId = u_id u, jwt_iat = clock div 1000,
                    jwt_exp = clock div 1000 + 7 * 24 * 60 * 60,
                    jwt_key = JWT_SECRET_routes e\<rparr>))"
    by (auto simp: generateToken_def jwt_sign_def)
next
  assume a: "jwt_decode l tok = Some j \<and> jwt_exp j < clock div 1000"
  then have "authenticate l e clock (users st) (Some (''Bearer '' @ tok))
           = Responded (unauthorized ''Invalid or expired token'')"
    by (intro authenticate_expired [of l tok j]) simp_all
  then show "status (fst (taskRoutes l e clock new_id st (Some (''Bearer '' @ tok)) req)) = 401"
    and "snd (taskRoutes l e clock new_id st (Some (''Bearer '' @ tok)) req) = st"
    by (simp_all add: taskRoutes_def unauthorized_def)
next
  assume "jwt_decode l tok = Some j \<and> jwt_key j = JWT_SECRET_middleware e
        \<and> clock div 1000 < jwt_exp j"
  then show "jwt_verify l clock tok (JWT_SECRET_middleware e) = Inr j"
    by (simp add: jwt_verify_valid)
next
  assume a: "jwt_decode l tok = Some j \<and> jwt_key j = JWT_SECRET_middleware e
        \<and> clock div 1000 < jwt_exp j
        \<and> castObjectId (jwt_userId j) = Some oid
        \<and> find (\<lambda>u. u_id u = oid) (users st) = Some u"
  let ?ru = "\<lparr>ru_userId = jwt_userId j, ru_user = select_default u\<rparr>"
  from a show gate: "authenticate l e clock (users st) (Some (''Bearer '' @ tok)) = Next ?ru"
    by (intro authenticate_valid [of l tok j e clock oid]) simp_all
  then show route: "taskRoutes l e clock new_id st (Some (''Bearer '' @ tok)) req
          = (case req of
               POST errors b \<Rightarrow> createTask e clock new_id st ?ru errors b
             | GET \<Rightarrow> (getTasks e st ?ru, st)
             | PUT i errors b \<Rightarrow> updateTask e clock st ?ru i errors b
             | DELETE i \<Rightarrow> deleteTask e st ?ru i)"
    by (simp add: taskRoutes_def)
  show "status (fst (taskRoutes l e clock new_id st (Some (''Bearer '' @ tok)) req)) \<noteq> 401"
    unfolding route by (rule status_handlers_not_401)
next
  assume rt: "\<forall>j'. jwt_decode l (jwt_encode l j') = Some j'"
    and w: "clock2 div 1000 < clock div 1000 + 7 * 24 * 60 * 60"
  let ?j = "\<lparr>jwt_userId = uid, jwt_iat = clock div 1000,
             jwt_exp = clock div 1000 + 7 * 24 * 60 * 60,
             jwt_key = JWT_SECRET_middleware e\<rparr>"
  have "jwt_decode l (generateToken l e clock uid) = Some ?j"
    using rt by (intro generateToken_readback) simp
  moreover have "jwt_key ?j = JWT_SECRET_middleware e" by simp
  moreover have "clock2 div 1000 < jwt_exp ?j" using w by simp
  ultimately show "jwt_verify l clock2 (generateToken l e clock uid) (JWT_SECRET_middleware e)
             = Inr ?j"
    by (rule jwt_verify_valid)
next
  assume rt: "\<forall>j'. jwt_decode l (jwt_encode l j') = Some j'"
    and w: "clock div 1000 + 7 * 24 * 60 * 60 < clock2 div 1000"
  let ?j = "\<lparr>jwt_userId = uid, jwt_iat = clock div 1000,
             jwt_exp = clock div 1000 + 7 * 24 * 60 * 60,
             jwt_key = JWT_SECRET_middleware e\<rparr>"
  have d: "jwt_decode l (generateToken l e clock uid) = Some ?j"
    using rt by (intro generateToken_readback) simp
  have "jwt_exp ?j \<le> clock2 div 1000" using w by simp
  from authenticate_expired [OF d this, of e "users st"]
  show "status (fst (taskRoutes l e clock2 new_id st
                       (Some (''Bearer '' @ generateToken l e clock uid)) req)) = 401"
    by (simp add: taskRoutes_def unauthorized_def)
qed

theorem token_expiry_witness:
  "status (fst (register rtLib exEnv 1000 carolId 5 [alice, bob] [] carolBody)) = 201
   \<and> field ''token'' (body (fst (register rtLib exEnv 1000 carolId 5 [alice, bob] [] carolBody)))
       = Some (JStr (jwt_encode rtLib
            \<lparr>jwt_userId = carolId, jwt_iat = 1, jwt_exp = 604801,
             jwt_key = ''your-secret-key-change-in-production''\<rparr>))
   \<and> status (login rtLib exEnv 1000 [alice, bob] []
        \<lparr>lb_email = ''alice@example.com'', lb_password = JStr ''wonderland''\<rparr>) = 200
   \<and> (\<forall>j. jwt_decode rtLib (jwt_encode rtLib j) = Some j)
   \<and> jwt_decode rtLib (generateToken rtLib exEnv 1000 aliceId)
       = Some \<lparr>jwt_userId = aliceId, jwt_iat = 1, jwt_exp = 604801,
               jwt_key = ''your-secret-key-change-in-production''\<rparr>
   \<and> (604801 :: nat) < 700000000 div 1000
   \<and> status (fst (taskRoutes rtLib exEnv 700000000 carolId exStore
        (Some (''Bearer '' @ generateToken rtLib exEnv 1000 aliceId)) GET)) = 401
   \<and> (1000 :: nat) div 1000 < 604801
   \<and> JWT_SECRET_middleware exEnv = ''your-secret-key-change-in-production''
   \<and> castObjectId aliceId = Some aliceId
   \<and> find (\<lambda>u. u_id u = aliceId) (users exStore) = Some alice
   \<and> jwt_verify rtLib 1000 (generateToken rtLib exEnv 1000 aliceId)
        (JWT_SECRET_middleware exEnv)
       = Inr \<lparr>jwt_userId = aliceId, jwt_iat = 1, jwt_exp = 604801,
              jwt_key = ''your-secret-key-change-in-production''\<rparr>
   \<and> authenticate rtLib exEnv 1000 (users exStore)
        (Some (''Bearer '' @ generateToken rtLib exEnv 1000 aliceId))
       = Next \<lparr>ru_userId = aliceId, ru_user = select_default alice\<rparr>
   \<and> status (fst (taskRoutes rtLib exEnv 1000 carolId exStore
        (Some (''Bearer '' @ generateToken rtLib exEnv 1000 aliceId)) GET)) \<noteq> 401
   \<and> (1000 :: nat) div 1000 + 7 * 24 * 60 * 60 < 700000000 div 1000
   \<and> status (fst (taskRoutes rtLib exEnv 700000000 carolId exStore
        (Some (''Bearer '' @ generateToken rtLib exEnv 1000 carolId)) (DELETE aliceId))) = 401"
proof -
  let ?j = "\<lparr>jwt_userId = aliceId, jwt_iat = 1, jwt_exp = 604801,
             jwt_key = ''your-secret-key-change-in-production''\<rparr>"
  let ?tok = "generateToken rtLib exEnv 1000 aliceId"
  let ?lb = "\<lparr>lb_email = ''alice@example.com'', lb_password = JStr ''wonderland''\<rparr>"
  have secret: "JWT_SECRET_middleware exEnv = ''your-secret-key-change-in-production''"
    by (simp add: JWT_SECRET_middleware_def exEnv_def)
  have secret': "JWT_SECRET_routes exEnv = ''your-secret-key-change-in-production''"
    by (simp add: JWT_SECRET_routes_def exEnv_def)
  have rt: "\<forall>j. jwt_decode rtLib (jwt_encode rtLib j) = Some j"
    by (simp add: rtLib_roundtrip)
  have reg: "status (fst (register rtLib exEnv 1000 carolId 5 [alice, bob] [] carolBody)) = 201"
    by (simp add: carol_registers)
  have log: "status (login rtLib exEnv 1000 [alice, bob] [] ?lb) = 200"
    by (simp add: alice_logs_in)
  have dec: "jwt_decode rtLib ?tok = Some ?j"
    using generateToken_readback [of rtLib exEnv 1000 aliceId] rtLib_roundtrip
    by (simp add: secret)
  have past: "jwt_exp ?j < 700000000 div 1000"
    by simp
  have key: "jwt_key ?j = JWT_SECRET_middleware exEnv"
    by (simp add: secret)
  have window: "1000 div 1000 < jwt_exp ?j"
    by simp
  have wf: "castObjectId (jwt_userId ?j) = Some aliceId"
    by (simp add: aliceId_wf)
  have later: "(1000 :: nat) div 1000 + 7 * 24 * 60 * 60 < 700000000 div 1000"
    by simp
  note issued = token_expiry [where l = rtLib and e = exEnv and clock = 1000
      and new_id = carolId and salt = 5 and us = "[alice, bob]" and errors = "[]"
      and rb = carolBody and lb = ?lb and tok = ?tok and j = ?j and st = exStore
      and oid = aliceId and u = alice and req = GET]
  note expired = token_expiry [where l = rtLib and e = exEnv and clock = 700000000
      and new_id = carolId and st = exStore and tok = ?tok and j = ?j and req = GET]
  note lifetime = token_expiry [where l = rtLib and e = exEnv and clock = 1000
      and ?clock2.0 = 700000000 and new_id = carolId and st = exStore and uid = carolId
      and req = "DELETE aliceId"]
  have t1: "field ''token'' (body (fst (register rtLib exEnv 1000 carolId 5 [alice, bob] [] carolBody)))
       = Some (JStr (jwt_encode rtLib
            \<lparr>jwt_userId = carolId, jwt_iat = 1, jwt_exp = 604801,
             jwt_key = ''your-secret-key-change-in-production''\<rparr>))"
    using issued reg by (simp add: secret')
  have t3: "status (fst (taskRoutes rtLib exEnv 700000000 carolId exStore
        (Some (''Bearer '' @ ?tok)) GET)) = 401"
    using expired dec past by blast
  have t4: "jwt_verify rtLib 1000 ?tok (JWT_SECRET_middleware exEnv) = Inr ?j"
    using issued dec key window by blast
  have t5: "authenticate rtLib exEnv 1000 (users exStore) (Some (''Bearer '' @ ?tok))
       = Next \<lparr>ru_userId = aliceId, ru_user = select_default alice\<rparr>
     \<and> status (fst (taskRoutes rtLib exEnv 1000 carolId exStore
          (Some (''Bearer '' @ ?tok)) GET)) \<noteq> 401"
  proof -
    have ante: "jwt_decode rtLib ?tok = Some ?j \<and> jwt_key ?j = JWT_SECRET_middleware exEnv
        \<and> 1000 div 1000 < jwt_exp ?j
        \<and> castObjectId (jwt_userId ?j) = Some aliceId
        \<and> find (\<lambda>u. u_id u = aliceId) (users exStore) = Some alice"
      using dec key window wf alice_stored by blast
    note c5 = issued [THEN conjunct2, THEN conjunct2, THEN conjunct2, THEN conjunct2,
        THEN conjunct1, THEN mp, OF ante]
    have id: "jwt_userId ?j = aliceId" by simp
    from c5 [THEN conjunct1] c5 [THEN conjunct2, THEN conjunct2] show ?thesis
      unfolding id by (rule conjI)
  qed
  have t6: "status (fst (taskRoutes rtLib exEnv 700000000 carolId exStore
        (Some (''Bearer '' @ generateToken rtLib exEnv 1000 carolId)) (DELETE aliceId))) = 401"
    using lifetime rt later by blast
  show ?thesis
    using reg t1 log rt dec t3 secret aliceId_wf alice_stored t4 t5 t6 by simp
qed


section \<open>Issuance and verification agree on the secret\<close>

text \<open>
  C10. Token issuance (routes/auth.js) and token verification (middleware/auth.js)
  read the signing secret independently and agree on its value: the same environment
  variable, and the same fallback string when it is not set. So, with a token library
  that reads back every token it writes, for every user identity the token that
  \<^verbatim>\<open>generateToken\<close> issues verifies before its expiry to that same identity,
  whether or not a secret is configured; the token a successful registration or login
  returns is that token; and presented to the gate before its expiry, by the user just
  registered (against the store the registration left) or just logged in, it passes the
  gate with that identity and that user's document attached.
\<close>

theorem issued_token_verifies:
  assumes roundtrip: "\<And>j. jwt_decode l (jwt_encode l j) = Some j"
    and before_expiry: "clock' div 1000 < clock div 1000 + 7 * 24 * 60 * 60"
  shows "JWT_SECRET_routes e = JWT_SECRET_middleware e
       \<and> (env_JWT_SECRET e = None \<longrightarrow>
            JWT_SECRET_routes e = ''your-secret-key-change-in-production''
            \<and> JWT_SECRET_middleware e = ''your-secret-key-change-in-production'')
       \<and> jwt_verify l clock' (generateToken l e clock uid) (JWT_SECRET_middleware e)
            = Inr \<lparr>jwt_userId = uid, jwt_iat = clock div 1000,
                    jwt_exp = clock div 1000 + 7 * 24 * 60 * 60,
                    jwt_key = JWT_SECRET_middleware e\<rparr>
       \<and> (castObjectId uid = Some uid \<and> find (\<lambda>u. u_id u = uid) us = Some u \<longrightarrow>
            authenticate l e clock' us (Some (''Bearer '' @ generateToken l e clock uid))
              = Next \<lparr>ru_userId = uid, ru_user = select_default u\<rparr>)
       \<and> (status (fst (register l e clock uid salt us0 errors rb)) = 201 \<longrightarrow>
            field ''token'' (body (fst (register l e clock uid salt us0 errors rb)))
              = Some (JStr (generateToken l e clock uid)))
       \<and> (status (login l e clock us0 errors lb) = 200
            \<and> find (\<lambda>u. u_email u = lb_email lb) us0 = Some u0 \<and> u_id u0 = uid \<longrightarrow>
            field ''token'' (body (login l e clock us0 errors lb))
              = Some (JStr (generateToken l e clock uid)))
       \<and> (status (fst (register l e clock uid salt us0 errors rb)) = 201
            \<and> castObjectId uid = Some uid
            \<and> \<not> list_ex (\<lambda>u. u_id u = uid) us0 \<longrightarrow>
            (\<exists>t d. field ''token'' (body (fst (register l e clock uid salt us0 errors rb)))
                      = Some (JStr t)
                 \<and> authenticate l e clock' (snd (register l e clock uid salt us0 errors rb))
                      (Some (''Bearer '' @ t))
                    = Next \<lparr>ru_userId = uid, ru_user = d\<rparr>
                 \<and> d_id d = uid))
       \<and> (status (login l e clock us0 errors lb) = 200
            \<and> find (\<lambda>u. u_email u = lb_email lb) us0 = Some u0 \<and> u_id u0 = uid
            \<and> castObjectId uid = Some uid \<longrightarrow>
            (\<exists>t d. field ''token'' (body (login l e clock us0 errors lb)) = Some (JStr t)
                 \<and> authenticate l e clock' us0 (Some (''Bearer '' @ t))
                    = Next \<lparr>ru_userId = uid, ru_user = d\<rparr>
                 \<and> d_id d = uid))"
proof -
  let ?j = "\<lparr>jwt_userId = uid, jwt_iat = clock div 1000,
             jwt_exp = clock div 1000 + 7 * 24 * 60 * 60,
             jwt_key = JWT_SECRET_middleware e\<rparr>"
  let ?tok = "generateToken l e clock uid"
  have readback: "jwt_decode l ?tok = Some ?j"
    by (rule generateToken_readback [OF roundtrip])
  have key: "jwt_key ?j = JWT_SECRET_middleware e"
    by simp
  have window: "clock' div 1000 < jwt_exp ?j"
    using before_expiry by simp
  have verify: "jwt_verify l clock' ?tok (JWT_SECRET_middleware e) = Inr ?j"
    by (rule jwt_verify_valid [OF readback key window])
  have gate: "authenticate l e clock' us' (Some (''Bearer '' @ ?tok))
                = Next \<lparr>ru_userId = uid, ru_user = select_default u'\<rparr>"
    if "castObjectId uid = Some uid" "find (\<lambda>u. u_id u = uid) us' = Some u'" for us' u'
    using authenticate_valid [OF readback key window, of uid us' u'] that by simp
  have reg: "field ''token'' (body (fst (register l e clock uid salt us0 errors rb)))
               = Some (JStr ?tok)"
    if "status (fst (register l e clock uid salt us0 errors rb)) = 201"
    using register_created [OF that] by auto
  have log: "field ''token'' (body (login l e clock us0 errors lb)) = Some (JStr ?tok)"
    if "status (login l e clock us0 errors lb) = 200"
      "find (\<lambda>u. u_email u = lb_email lb) us0 = Some u0" "u_id u0 = uid"
    using login_ok [OF that(1)] that(2,3) by auto
  have fallback:
    "JWT_SECRET_routes e = ''your-secret-key-change-in-production''
     \<and> JWT_SECRET_middleware e = ''your-secret-key-change-in-production''"
    if "env_JWT_SECRET e = None"
    using that by (simp add: JWT_SECRET_routes_def JWT_SECRET_middleware_def)
  have reg_gate:
    "\<exists>t d. field ''token'' (body (fst (register l e clock uid salt us0 errors rb)))
                      = Some (JStr t)
                 \<and> authenticate l e clock' (snd (register l e clock uid salt us0 errors rb))
                      (Some (''Bearer '' @ t))
                    = Next \<lparr>ru_userId = uid, ru_user = d\<rparr>
                 \<and> d_id d = uid"
    if created: "status (fst (register l e clock uid salt us0 errors rb)) = 201"
      and wf: "castObjectId uid = Some uid"
      and fresh: "\<not> list_ex (\<lambda>u. u_id u = uid) us0"
  proof -
    from register_created [OF created] obtain u where
      save: "User_save l clock uid salt us0 (rb_username rb) (rb_email rb) (rb_password rb)
               = Inr (u, us0 @ [u])"
      and r: "snd (register l e clock uid salt us0 errors rb) = us0 @ [u]"
      by auto
    from User_save_Inr [OF save] have id: "u_id u = uid" by simp
    from fresh have "find (\<lambda>u. u_id u = uid) us0 = None"
      by (simp add: find_None_list_ex)
    then have "find (\<lambda>u. u_id u = uid) (us0 @ [u]) = Some u"
      using id by (simp add: find_append)
    from gate [OF wf this] reg [OF created] r id show ?thesis
      by (intro exI [of _ ?tok] exI [of _ "select_default u"]) (simp add: select_default_def)
  qed
  have log_gate:
    "\<exists>t d. field ''token'' (body (login l e clock us0 errors lb)) = Some (JStr t)
                 \<and> authenticate l e clock' us0 (Some (''Bearer '' @ t))
                    = Next \<lparr>ru_userId = uid, ru_user = d\<rparr>
                 \<and> d_id d = uid"
    if ok: "status (login l e clock us0 errors lb) = 200"
      and mail: "find (\<lambda>u. u_email u = lb_email lb) us0 = Some u0"
      and id: "u_id u0 = uid"
      and wf: "castObjectId uid = Some uid"
  proof -
    from find_SomeD [OF mail] have "u0 \<in> set us0" by simp
    from find_exists [OF this, of "\<lambda>u. u_id u = uid"] id
    obtain u1 where u1: "find (\<lambda>u. u_id u = uid) us0 = Some u1" by blast
    from find_SomeD [OF u1] have "u_id u1 = uid" by simp
    with gate [OF wf u1] log [OF ok mail id] show ?thesis
      by (intro exI [of _ ?tok] exI [of _ "select_default u1"]) (simp add: select_default_def)
  qed
  show ?thesis
    using JWT_SECRET_agree [of e] fallback verify gate reg log reg_gate log_gate
    by (intro conjI impI) blast+
qed

theorem issued_token_verifies_witness:
  "(\<forall>j. jwt_decode rtLib (jwt_encode rtLib j) = Some j)
   \<and> (5000 :: nat) div 1000 < 1000 div 1000 + 7 * 24 * 60 * 60
   \<and> env_JWT_SECRET exEnv = None
   \<and> JWT_SECRET_middleware exEnv = ''your-secret-key-change-in-production''
   \<and> castObjectId aliceId = Some aliceId
   \<and> find (\<lambda>u. u_id u = aliceId) (users exStore) = Some alice
   \<and> authenticate rtLib exEnv 5000 (users exStore)
        (Some (''Bearer '' @ generateToken rtLib exEnv 1000 aliceId))
       = Next \<lparr>ru_userId = aliceId, ru_user = select_default alice\<rparr>
   \<and> status (fst (register rtLib exEnv 1000 carolId 5 [alice, bob] [] carolBody)) = 201
   \<and> castObjectId carolId = Some carolId
   \<and> \<not> list_ex (\<lambda>u. u_id u = carolId) [alice, bob]
   \<and> (\<exists>t d. field ''token''
               (body (fst (register rtLib exEnv 1000 carolId 5 [alice, bob] [] carolBody)))
             = Some (JStr t)
          \<and> authenticate rtLib exEnv 5000
               (snd (register rtLib exEnv 1000 carolId 5 [alice, bob] [] carolBody))
               (Some (''Bearer '' @ t))
             = Next \<lparr>ru_userId = carolId, ru_user = d\<rparr>
          \<and> d_id d = carolId)
   \<and> status (login rtLib exEnv 1000 [alice, bob] []
        \<lparr>lb_email = ''alice@example.com'', lb_password = JStr ''wonderland''\<rparr>) = 200
   \<and> find (\<lambda>u. u_email u = ''alice@example.com'') [alice, bob] = Some alice
   \<and> (\<exists>t d. field ''token'' (body (login rtLib exEnv 1000 [alice, bob] []
               \<lparr>lb_email = ''alice@example.com'', lb_password = JStr ''wonderland''\<rparr>))
             = Some (JStr t)
          \<and> authenticate rtLib exEnv 5000 [alice, bob] (Some (''Bearer '' @ t))
             = Next \<lparr>ru_userId = aliceId, ru_user = d\<rparr>
          \<and> d_id d = aliceId)"
proof -
  let ?lb = "\<lparr>lb_email = ''alice@example.com'', lb_password = JStr ''wonderland''\<rparr>"
  have rt: "\<forall>j. jwt_decode rtLib (jwt_encode rtLib j) = Some j"
    by (simp add: rtLib_roundtrip)
  have before_expiry: "(5000 :: nat) div 1000 < 1000 div 1000 + 7 * 24 * 60 * 60"
    by simp
  have unset: "env_JWT_SECRET exEnv = None"
    by (simp add: exEnv_def)
  have reg: "status (fst (register rtLib exEnv 1000 carolId 5 [alice, bob] [] carolBody)) = 201"
    by (simp add: carol_registers)
  have fresh: "\<not> list_ex (\<lambda>u. u_id u = carolId) [alice, bob]"
    by (simp add: example_defs)
  have log: "status (login rtLib exEnv 1000 [alice, bob] [] ?lb) = 200"
    by (simp add: alice_logs_in)
  have mail: "find (\<lambda>u. u_email u = lb_email ?lb) [alice, bob] = Some alice"
    by (simp add: alice_def bob_def)
  have mail': "find (\<lambda>u. u_email u = ''alice@example.com'') [alice, bob] = Some alice"
    using mail by simp
  have ident: "u_id alice = aliceId"
    by (simp add: alice_def)
  note alice_th = issued_token_verifies [OF rtLib_roundtrip before_expiry,
      where e = exEnv and uid = aliceId and us = "users exStore" and u = alice
        and ?us0.0 = "[alice, bob]" and errors = "[]" and lb = ?lb and ?u0.0 = alice]
  note carol_th = issued_token_verifies [OF rtLib_roundtrip before_expiry,
      where e = exEnv and uid = carolId and ?us0.0 = "[alice, bob]" and errors = "[]"
        and rb = carolBody and salt = 5]
  have c1: "JWT_SECRET_middleware exEnv = ''your-secret-key-change-in-production''"
    using alice_th unset by blast
  have c2: "authenticate rtLib exEnv 5000 (users exStore)
        (Some (''Bearer '' @ generateToken rtLib exEnv 1000 aliceId))
       = Next \<lparr>ru_userId = aliceId, ru_user = select_default alice\<rparr>"
    using alice_th aliceId_wf alice_stored by blast
  have c3: "\<exists>t d. field ''token''
               (body (fst (register rtLib exEnv 1000 carolId 5 [alice, bob] [] carolBody)))
             = Some (JStr t)
          \<and> authenticate rtLib exEnv 5000
               (snd (register rtLib exEnv 1000 carolId 5 [alice, bob] [] carolBody))
               (Some (''Bearer '' @ t))
             = Next \<lparr>ru_userId = carolId, ru_user = d\<rparr>
          \<and> d_id d = carolId"
    using carol_th reg carolId_wf fresh by blast
  have c4: "\<exists>t d. field ''token'' (body (login rtLib exEnv 1000 [alice, bob] [] ?lb))
             = Some (JStr t)
          \<and> authenticate rtLib exEnv 5000 [alice, bob] (Some (''Bearer '' @ t))
             = Next \<lparr>ru_userId = aliceId, ru_user = d\<rparr>
          \<and> d_id d = aliceId"
    using alice_th log mail ident aliceId_wf by blast
  show ?thesis
    using rt before_expiry unset c1 aliceId_wf alice_stored c2 reg carolId_wf fresh c3
      log mail' c4
    by blast
qed


section \<open>Create, then read\<close>

text \<open>
  C9. Creating a task with only a title (non-empty after trimming, at most 200
  characters, validation passed) answers 201 with the new task: its title is the
  trimmed input, its description is the empty string and its completed flag is false.
  A following GET by the same identity answers 200 with a list that contains the new
  task: the JSON object of that task in the list has the trimmed input as its
  \<^verbatim>\<open>title\<close>, \<^verbatim>\<open>false\<close> as its \<^verbatim>\<open>completed\<close> and the empty string as its
  \<^verbatim>\<open>description\<close>.
\<close>

theorem create_then_read:
  assumes gate: "authenticate l e clock (users st) a = Next ru"
      and nonempty: "trim title \<noteq> []"
      and short: "length (trim title) \<le> 200"
      and gate2: "authenticate l e clock2 (users st) a2 = Next ru2"
      and same: "ru_userId ru2 = ru_userId ru"
  shows "\<exists>t ts j.
           t = \<lparr>t_id = new_id, t_title = trim title, t_description = [], t_completed = False,
                t_user = d_id (ru_user ru), t_createdAt = clock, t_updatedAt = clock\<rparr>
         \<and> taskRoutes l e clock new_id st a
              (POST [] \<lparr>tb_title = Some title, tb_description = None, tb_completed = None\<rparr>)
            = (respond 201
                 (JObj [(''message'', JStr ''Task created successfully''),
                        (''task'', task_json t (populate_user (users st) (t_user t)))]),
               st\<lparr>tasks := tasks st @ [t]\<rparr>)
         \<and> fst (taskRoutes l e clock2 new_id2 (st\<lparr>tasks := tasks st @ [t]\<rparr>) a2 GET)
            = respond 200
                (JObj [(''message'', JStr ''Tasks retrieved successfully''),
                       (''count'', JNum (int (length ts))),
                       (''tasks'', JArr (map (\<lambda>t. task_json t (JStr (t_user t))) ts))])
         \<and> t \<in> set ts
         \<and> field ''task'' (body (fst (taskRoutes l e clock new_id st a
              (POST [] \<lparr>tb_title = Some title, tb_description = None, tb_completed = None\<rparr>))))
            = Some (JObj [(''_id'', JStr new_id), (''title'', JStr (trim title)),
                          (''description'', JStr []), (''completed'', JBool False),
                          (''user'', populate_user (users st) (d_id (ru_user ru))),
                          (''createdAt'', JNum (int clock)), (''updatedAt'', JNum (int clock)),
                          (''__v'', JNum 0)])
         \<and> j = JObj [(''_id'', JStr new_id), (''title'', JStr (trim title)),
                      (''description'', JStr []), (''completed'', JBool False),
                      (''user'', JStr (d_id (ru_user ru))),
                      (''createdAt'', JNum (int clock)), (''updatedAt'', JNum (int clock)),
                      (''__v'', JNum 0)]
         \<and> j \<in> set (map (\<lambda>t. task_json t (JStr (t_user t))) ts)
         \<and> field ''title'' j = Some (JStr (trim title))
         \<and> field ''completed'' j = Some (JBool False)
         \<and> field ''description'' j = Some (JStr [])"
proof -
  let ?t = "\<lparr>t_id = new_id, t_title = trim title, t_description = [], t_completed = False,
             t_user = d_id (ru_user ru), t_createdAt = clock, t_updatedAt = clock\<rparr>"
  let ?st1 = "st\<lparr>tasks := tasks st @ [?t]\<rparr>"
  let ?ts = "rev (sort_key t_createdAt (filter (\<lambda>t. t_user t = d_id (ru_user ru)) (tasks ?st1)))"
  let ?j = "JObj [(''_id'', JStr new_id), (''title'', JStr (trim title)),
                  (''description'', JStr []), (''completed'', JBool False),
                  (''user'', JStr (d_id (ru_user ru))),
                  (''createdAt'', JNum (int clock)), (''updatedAt'', JNum (int clock)),
                  (''__v'', JNum 0)]"
  note uid = authenticate_Next_id [OF gate]
  have uid2: "castObjectId (ru_userId ru2) = Some (d_id (ru_user ru))"
    using uid same by simp
  have post: "taskRoutes l e clock new_id st a
              (POST [] \<lparr>tb_title = Some title, tb_description = None, tb_completed = None\<rparr>)
            = (respond 201
                 (JObj [(''message'', JStr ''Task created successfully''),
                        (''task'', task_json ?t (populate_user (users st) (t_user ?t)))]),
               ?st1)"
    using gate Task_create_title_only [OF nonempty short uid]
    by (simp add: taskRoutes_def createTask_def)
  have gate2': "authenticate l e clock2 (users ?st1) a2 = Next ru2"
    using gate2 by simp
  have get: "fst (taskRoutes l e clock2 new_id2 ?st1 a2 GET)
            = respond 200
                (JObj [(''message'', JStr ''Tasks retrieved successfully''),
                       (''count'', JNum (int (length ?ts))),
                       (''tasks'', JArr (map (\<lambda>t. task_json t (JStr (t_user t))) ?ts))])"
    using gate2' uid2 by (simp add: taskRoutes_def getTasks_def Task_find_def)
  have mem: "?t \<in> set ?ts"
    by simp
  have created: "field ''task'' (body (fst (taskRoutes l e clock new_id st a
              (POST [] \<lparr>tb_title = Some title, tb_description = None, tb_completed = None\<rparr>))))
            = Some (JObj [(''_id'', JStr new_id), (''title'', JStr (trim title)),
                          (''description'', JStr []), (''completed'', JBool False),
                          (''user'', populate_user (users st) (d_id (ru_user ru))),
                          (''createdAt'', JNum (int clock)), (''updatedAt'', JNum (int clock)),
                          (''__v'', JNum 0)])"
    by (simp add: post task_json_def)
  have written: "task_json ?t (JStr (t_user ?t)) = ?j"
    by (simp add: task_json_def)
  have listed: "?j \<in> set (map (\<lambda>t. task_json t (JStr (t_user t))) ?ts)"
    using mem written by (metis (no_types, lifting) image_eqI list.set_map)
  have fields: "field ''title'' ?j = Some (JStr (trim title))"
    "field ''completed'' ?j = Some (JBool False)"
    "field ''description'' ?j = Some (JStr [])"
    by (simp_all add: field_def)
  from post get mem created listed fields show ?thesis by blast
qed

theorem create_then_read_witness:
  "authenticate exLib exEnv 1000 (users exStore) aliceAuth
     = Next \<lparr>ru_userId = aliceId, ru_user = select_default alice\<rparr>
   \<and> trim ''  Buy eggs '' = ''Buy eggs''
   \<and> length (trim ''  Buy eggs '') \<le> 200
   \<and> (\<exists>ts. taskRoutes exLib exEnv 1000 carolId exStore aliceAuth
              (POST [] \<lparr>tb_title = Some ''  Buy eggs '', tb_description = None,
                        tb_completed = None\<rparr>)
            = (respond 201
                 (JObj [(''message'', JStr ''Task created successfully''),
                        (''task'',
                         task_json
                           \<lparr>t_id = carolId, t_title = ''Buy eggs'', t_description = [],
                            t_completed = False, t_user = aliceId, t_createdAt = 1000,
                            t_updatedAt = 1000\<rparr>
                           (populate_user (users exStore) aliceId))]),
               exStore\<lparr>tasks := tasks exStore @
                  [\<lparr>t_id = carolId, t_title = ''Buy eggs'', t_description = [],
                    t_completed = False, t_user = aliceId, t_createdAt = 1000,
                    t_updatedAt = 1000\<rparr>]\<rparr>)
          \<and> fst (taskRoutes exLib exEnv 1000 bobId
                 (exStore\<lparr>tasks := tasks exStore @
                    [\<lparr>t_id = carolId, t_title = ''Buy eggs'', t_description = [],
                      t_completed = False, t_user = aliceId, t_createdAt = 1000,
                      t_updatedAt = 1000\<rparr>]\<rparr>) aliceAuth GET)
            = respond 200
                (JObj [(''message'', JStr ''Tasks retrieved successfully''),
                       (''count'', JNum (int (length ts))),
                       (''tasks'', JArr (map (\<lambda>t. task_json t (JStr (t_user t))) ts))])
          \<and> \<lparr>t_id = carolId, t_title = ''Buy eggs'', t_description = [],
              t_completed = False, t_user = aliceId, t_createdAt = 1000,
              t_updatedAt = 1000\<rparr> \<in> set ts
          \<and> JObj [(''_id'', JStr carolId), (''title'', JStr ''Buy eggs''),
                   (''description'', JStr []), (''completed'', JBool False),
                   (''user'', JStr aliceId),
                   (''createdAt'', JNum 1000), (''updatedAt'', JNum 1000), (''__v'', JNum 0)]
              \<in> set (map (\<lambda>t. task_json t (JStr (t_user t))) ts))"
proof -
  have tr: "trim ''  Buy eggs '' = ''Buy eggs''"
    by (simp add: trim_def isSpace_def)
  have nonempty: "trim ''  Buy eggs '' \<noteq> []"
    by (simp add: tr)
  have short: "length (trim ''  Buy eggs '') \<le> 200"
    by (simp add: tr)
  have who: "d_id (ru_user \<lparr>ru_userId = aliceId, ru_user = select_default alice\<rparr>) = aliceId"
    by (simp add: select_default_def alice_def)
  from create_then_read [OF aliceAuth_passes nonempty short aliceAuth_passes refl,
      of carolId bobId]
  obtain t ts j where
    t: "t = \<lparr>t_id = carolId, t_title = ''Buy eggs'', t_description = [], t_completed = False,
             t_user = aliceId, t_createdAt = 1000, t_updatedAt = 1000\<rparr>"
    and post: "taskRoutes exLib exEnv 1000 carolId exStore aliceAuth
              (POST [] \<lparr>tb_title = Some ''  Buy eggs '', tb_description = None,
                        tb_completed = None\<rparr>)
            = (respond 201
                 (JObj [(''message'', JStr ''Task created successfully''),
                        (''task'', task_json t (populate_user (users exStore) (t_user t)))]),
               exStore\<lparr>tasks := tasks exStore @ [t]\<rparr>)"
    and get: "fst (taskRoutes exLib exEnv 1000 bobId (exStore\<lparr>tasks := tasks exStore @ [t]\<rparr>)
                 aliceAuth GET)
            = respond 200
                (JObj [(''message'', JStr ''Tasks retrieved successfully''),
                       (''count'', JNum (int (length ts))),
                       (''tasks'', JArr (map (\<lambda>t. task_json t (JStr (t_user t))) ts))])"
    and mem: "t \<in> set ts"
    and j: "j = JObj [(''_id'', JStr carolId), (''title'', JStr ''Buy eggs''),
                      (''description'', JStr []), (''completed'', JBool False),
                      (''user'', JStr aliceId),
                      (''createdAt'', JNum (int 1000)), (''updatedAt'', JNum (int 1000)),
                      (''__v'', JNum 0)]"
    and listed: "j \<in> set (map (\<lambda>t. task_json t (JStr (t_user t))) ts)"
    unfolding tr who by blast
  have user: "t_user t = aliceId"
    by (simp add: t)
  show ?thesis
    using aliceAuth_passes short tr post get mem listed unfolding t j user
    by (intro conjI exI [of _ ts]) simp_all
qed


section \<open>Duplicate identities at registration\<close>

text \<open>
  C5. For every registration request whose email or username matches an existing user,
  registration fails with status 400 and no new user record is persisted. For a
  request that passed input validation the failure message names a colliding field:
  the email whenever the email collides with some user (also when the username
  collides as well, with the same user or with another), and the username otherwise.
\<close>

theorem duplicate_identity_rejected:
  assumes "u \<in> set us"
      and "u_email u = rb_email b \<or> u_username u = rb_username b"
  shows "status (fst (register l e clock new_id salt us errors b)) = 400
       \<and> snd (register l e clock new_id salt us errors b) = us
       \<and> fst (register l e clock new_id salt us [] b)
           = respond 400
               (JObj [(''error'', JStr ''User already exists''),
                      (''message'',
                       JStr (if list_ex (\<lambda>x. u_email x = rb_email b) us
                             then ''Email is already registered''
                             else ''Username is already taken''))])
       \<and> (list_ex (\<lambda>x. u_email x = rb_email b) us
            \<or> list_ex (\<lambda>x. u_username x = rb_username b) us)"
proof (cases "find (\<lambda>x. u_email x = rb_email b) us")
  case (Some x)
  then have ex: "list_ex (\<lambda>x. u_email x = rb_email b) us"
    using find_None_list_ex [of "\<lambda>x. u_email x = rb_email b" us] by simp
  from find_SomeD [OF Some] have "u_email x = rb_email b" by simp
  with Some ex show ?thesis
    by (simp add: register_def User_findOne_or_def select_default_def)
next
  case None
  then have nex: "\<not> list_ex (\<lambda>x. u_email x = rb_email b) us"
    using find_None_list_ex [of "\<lambda>x. u_email x = rb_email b" us] by simp
  then have "u_email u \<noteq> rb_email b"
    using assms(1) by (auto simp: list_ex_iff)
  with assms have uname: "u_username u = rb_username b" by simp
  from find_exists [OF assms(1), of "\<lambda>x. u_username x = rb_username b"] uname
  obtain y where y: "find (\<lambda>x. u_username x = rb_username b) us = Some y" by blast
  then have ex: "list_ex (\<lambda>x. u_username x = rb_username b) us"
    using find_None_list_ex [of "\<lambda>x. u_username x = rb_username b" us] by simp
  have "u_email y \<noteq> rb_email b"
    using find_SomeD [OF y] nex by (auto simp: list_ex_iff)
  with None y nex ex show ?thesis
    by (simp add: register_def User_findOne_or_def select_default_def)
qed

theorem duplicate_identity_rejected_witness:
  "alice \<in> set [alice, bob]
   \<and> u_username alice = ''alice''
   \<and> list_ex (\<lambda>x. u_email x = ''bob@example.com'') [alice, bob]
   \<and> list_ex (\<lambda>x. u_username x = ''alice'') [alice, bob]
   \<and> register exLib exEnv 1000 carolId 5 [alice, bob] []
        \<lparr>rb_username = ''alice'', rb_email = ''bob@example.com'', rb_password = ''s3cret!''\<rparr>
       = (respond 400
            (JObj [(''error'', JStr ''User already exists''),
                   (''message'', JStr ''Email is already registered'')]),
          [alice, bob])
   \<and> alice \<in> set [alice]
   \<and> \<not> list_ex (\<lambda>x. u_email x = ''bob@example.com'') [alice]
   \<and> register exLib exEnv 1000 carolId 5 [alice] []
        \<lparr>rb_username = ''alice'', rb_email = ''bob@example.com'', rb_password = ''s3cret!''\<rparr>
       = (respond 400
            (JObj [(''error'', JStr ''User already exists''),
                   (''message'', JStr ''Username is already taken'')]),
          [alice])"
proof -
  let ?b = "\<lparr>rb_username = ''alice'', rb_email = ''bob@example.com'',
             rb_password = ''s3cret!''\<rparr>"
  have mem: "alice \<in> set [alice, bob]" and mem': "alice \<in> set [alice]"
    by simp_all
  have uname: "u_username alice = ''alice''"
    by (simp add: alice_def)
  have collide: "u_email alice = rb_email ?b \<or> u_username alice = rb_username ?b"
    by (simp add: alice_def)
  have mails: "list_ex (\<lambda>x. u_email x = ''bob@example.com'') [alice, bob]"
    by (simp add: alice_def bob_def)
  have names: "list_ex (\<lambda>x. u_username x = ''alice'') [alice, bob]"
    by (simp add: alice_def bob_def)
  have no_mail: "\<not> list_ex (\<lambda>x. u_email x = ''bob@example.com'') [alice]"
    by (simp add: alice_def)
  note both = duplicate_identity_rejected [OF mem collide, of exLib exEnv 1000 carolId 5 "[]"]
  note one = duplicate_identity_rejected [OF mem' collide, of exLib exEnv 1000 carolId 5 "[]"]
  have r1: "register exLib exEnv 1000 carolId 5 [alice, bob] [] ?b
       = (respond 400
            (JObj [(''error'', JStr ''User already exists''),
                   (''message'', JStr ''Email is already registered'')]),
          [alice, bob])"
    using both mails by (simp add: prod_eq_iff)
  have r2: "register exLib exEnv 1000 carolId 5 [alice] [] ?b
       = (respond 400
            (JObj [(''error'', JStr ''User already exists''),
                   (''message'', JStr ''Username is already taken'')]),
          [alice])"
    using one no_mail by (simp add: prod_eq_iff)
  show ?thesis
    using mem uname mails names r1 mem' no_mail r2 by blast
qed


section \<open>The password hash stays in the store\<close>

text \<open>
  C6. The stored password hash is never serialized in a response. Default reads of the
  store (by id, by email or username, and the document the gate attaches) carry no
  password. The user projection returned by a successful registration is the object
  with exactly the properties id, username and email, holding the new identifier and
  the normalised username and email of the request; the one returned by a successful
  login holds those three values of the stored user with the request's email. No
  response body of registration, login or any task route (for requests that passed
  input validation) has a property named password at any depth. And no response
  depends on a stored hash: replacing every stored hash by any other leaves the
  response of registration (whatever salt is drawn for the new user), the decision of
  the gate and the response of every task route as they were, and leaves the response
  of login as it was whenever the comparison of the submitted password with each hash
  has the same outcome as before.
\<close>

theorem password_hash_not_serialized:
  "d_password (select_default u) = None
   \<and> (User_findById us i = Inr (Some d) \<longrightarrow> d_password d = None)
   \<and> (User_findOne_or us mail uname = Some d \<longrightarrow> d_password d = None)
   \<and> (authenticate l e clock us a = Next ru \<longrightarrow> d_password (ru_user ru) = None)
   \<and> (status (fst (register l e clock new_id salt us errors rb)) = 201 \<longrightarrow>
        field ''user'' (body (fst (register l e clock new_id salt us errors rb)))
          = Some (JObj [(''id'', JStr new_id),
                        (''username'', JStr (trim (rb_username rb))),
                        (''email'', JStr (trim (toLowerCase (rb_email rb))))]))
   \<and> (status (login l e clock us errors lb) = 200 \<longrightarrow>
        (\<exists>x. find (\<lambda>u. u_email u = lb_email lb) us = Some x
           \<and> field ''user'' (body (login l e clock us errors lb))
               = Some (JObj [(''id'', JStr (u_id x)), (''username'', JStr (u_username x)),
                             (''email'', JStr (u_email x))])))
   \<and> ''password'' \<notin> set (json_keys (body (fst (register l e clock new_id salt us [] rb))))
   \<and> ''password'' \<notin> set (json_keys (body (login l e clock us [] lb)))
   \<and> (validationErrors req = [] \<longrightarrow>
        ''password'' \<notin> set (json_keys (body (fst (taskRoutes l e clock new_id st a req)))))
   \<and> fst (register l e clock new_id salt (rehash h us) errors rb)
       = fst (register l e clock new_id salt' us errors rb)
   \<and> ((\<forall>x \<in> set us. \<forall>p. lb_password lb = JStr p \<longrightarrow>
           bcrypt_compare p (h x) = bcrypt_compare p (u_password x)) \<longrightarrow>
        login l e clock (rehash h us) errors lb = login l e clock us errors lb)
   \<and> authenticate l e clock (rehash h us) a = authenticate l e clock us a
   \<and> fst (taskRoutes l e clock new_id (st\<lparr>users := rehash h (users st)\<rparr>) a req)
       = fst (taskRoutes l e clock new_id st a req)"
proof (intro conjI impI)
  show "d_password (select_default u) = None"
    by (simp add: select_default_def)
next
  assume "User_findById us i = Inr (Some d)"
  then show "d_password d = None"
    by (auto simp: User_findById_def select_default_def split: option.splits)
next
  assume "User_findOne_or us mail uname = Some d"
  then show "d_password d = None"
    by (auto simp: User_findOne_or_def select_default_def split: option.splits)
next
  assume "authenticate l e clock us a = Next ru"
  from authenticate_Next [OF this] show "d_password (ru_user ru) = None"
    by (auto simp: select_default_def)
next
  assume created: "status (fst (register l e clock new_id salt us errors rb)) = 201"
  from register_created [OF created] obtain x where
    save: "User_save l clock new_id salt us (rb_username rb) (rb_email rb) (rb_password rb)
             = Inr (x, us @ [x])"
    and r: "register l e clock new_id salt us errors rb =
               (respond 201
                  (JObj [(''message'', JStr ''User registered successfully''),
                         (''token'', JStr (generateToken l e clock new_id)),
                         (''user'', userProjection new_id (u_username x) (u_email x))]),
                us @ [x])"
    by blast
  from User_save_Inr [OF save] have "u_username x = trim (rb_username rb)"
    "u_email x = trim (toLowerCase (rb_email rb))"
    by simp_all
  with r show "field ''user'' (body (fst (register l e clock new_id salt us errors rb)))
          = Some (JObj [(''id'', JStr new_id),
                        (''username'', JStr (trim (rb_username rb))),
                        (''email'', JStr (trim (toLowerCase (rb_email rb))))])"
    by (simp add: userProjection_def)
next
  assume "status (login l e clock us errors lb) = 200"
  from login_ok [OF this]
  show "\<exists>x. find (\<lambda>u. u_email u = lb_email lb) us = Some x
           \<and> field ''user'' (body (login l e clock us errors lb))
               = Some (JObj [(''id'', JStr (u_id x)), (''username'', JStr (u_username x)),
                             (''email'', JStr (u_email x))])"
    by (auto simp: userProjection_def)
next
  show "''password'' \<notin> set (json_keys (body (fst (register l e clock new_id salt us [] rb))))"
    by (rule keys_register)
next
  show "''password'' \<notin> set (json_keys (body (login l e clock us [] lb)))"
    by (rule keys_login)
next
  assume "validationErrors req = []"
  then show "''password'' \<notin> set (json_keys (body (fst (taskRoutes l e clock new_id st a req))))"
    by (rule keys_taskRoutes)
next
  show "fst (register l e clock new_id salt (rehash h us) errors rb)
       = fst (register l e clock new_id salt' us errors rb)"
    by (rule register_rehash)
next
  assume "\<forall>x \<in> set us. \<forall>p. lb_password lb = JStr p \<longrightarrow>
           bcrypt_compare p (h x) = bcrypt_compare p (u_password x)"
  then show "login l e clock (rehash h us) errors lb = login l e clock us errors lb"
    by (rule login_rehash)
next
  show "authenticate l e clock (rehash h us) a = authenticate l e clock us a"
    by (rule authenticate_rehash)
next
  show "fst (taskRoutes l e clock new_id (st\<lparr>users := rehash h (users st)\<rparr>) a req)
       = fst (taskRoutes l e clock new_id st a req)"
    by (rule taskRoutes_rehash)
qed

theorem password_hash_not_serialized_witness:
  "User_findById [alice, bob] aliceId = Inr (Some (select_default alice))
   \<and> d_password (select_default alice) = None
   \<and> User_findOne_or [alice, bob] ''bob@example.com'' ''robert'' = Some (select_default bob)
   \<and> d_password (select_default bob) = None
   \<and> authenticate exLib exEnv 1000 (users exStore) aliceAuth
       = Next \<lparr>ru_userId = aliceId, ru_user = select_default alice\<rparr>
   \<and> status (fst (register exLib exEnv 1000 carolId 5 [alice, bob] [] carolBody)) = 201
   \<and> field ''user'' (body (fst (register exLib exEnv 1000 carolId 5 [alice, bob] [] carolBody)))
       = Some (JObj [(''id'', JStr carolId), (''username'', JStr ''carol''),
                     (''email'', JStr ''carol@example.com'')])
   \<and> status (login exLib exEnv 1000 [alice, bob] []
        \<lparr>lb_email = ''alice@example.com'', lb_password = JStr ''wonderland''\<rparr>) = 200
   \<and> validationErrors GET = []
   \<and> ''password'' \<notin> set (json_keys (body (fst
        (taskRoutes exLib exEnv 1000 carolId exStore aliceAuth GET))))
   \<and> list_all
        (\<lambda>x. bcrypt_compare ''wonderland''
               (if u_email x = ''alice@example.com'' then Digest 42 ''wonderland''
                else u_password x)
             = bcrypt_compare ''wonderland'' (u_password x)) [alice, bob]
   \<and> login exLib exEnv 1000
        (rehash (\<lambda>x. if u_email x = ''alice@example.com'' then Digest 42 ''wonderland''
                     else u_password x) [alice, bob]) []
        \<lparr>lb_email = ''alice@example.com'', lb_password = JStr ''wonderland''\<rparr>
       = login exLib exEnv 1000 [alice, bob] []
        \<lparr>lb_email = ''alice@example.com'', lb_password = JStr ''wonderland''\<rparr>
   \<and> fst (register exLib exEnv 1000 carolId 5 (rehash (\<lambda>x. Digest 0 ''other'') [alice, bob])
          [] carolBody)
       = fst (register exLib exEnv 1000 carolId 6 [alice, bob] [] carolBody)
   \<and> fst (taskRoutes exLib exEnv 1000 carolId
          (exStore\<lparr>users := rehash (\<lambda>x. Digest 0 ''other'') (users exStore)\<rparr>) aliceAuth GET)
       = fst (taskRoutes exLib exEnv 1000 carolId exStore aliceAuth GET)"
proof -
  let ?lb = "\<lparr>lb_email = ''alice@example.com'', lb_password = JStr ''wonderland''\<rparr>"
  let ?h = "\<lambda>x. if u_email x = ''alice@example.com'' then Digest 42 ''wonderland''
                 else u_password x"
  let ?k = "\<lambda>x :: user. Digest 0 ''other''"
  have byId: "User_findById [alice, bob] aliceId = Inr (Some (select_default alice))"
    by (simp add: User_findById_def id_defs aliceId_def alice_def)
  have byOr: "User_findOne_or [alice, bob] ''bob@example.com'' ''robert''
                = Some (select_default bob)"
    by (simp add: User_findOne_or_def alice_def bob_def)
  have pat: "email_pattern exLib ''carol@example.com''"
    by (simp add: exLib_def)
  have reg: "status (fst (register exLib exEnv 1000 carolId 5 [alice, bob] [] carolBody)) = 201"
    by (simp add: carol_registers [OF pat])
  have log: "status (login exLib exEnv 1000 [alice, bob] [] ?lb) = 200"
    by (simp add: alice_logs_in)
  have noerr: "validationErrors GET = []"
    by simp
  have same_outcome: "list_all
        (\<lambda>x. bcrypt_compare ''wonderland'' (?h x)
             = bcrypt_compare ''wonderland'' (u_password x)) [alice, bob]"
    by (simp add: bcrypt_compare_def bcrypt_hash_def alice_def bob_def)
  then have hyp: "\<forall>x \<in> set [alice, bob]. \<forall>p. lb_password ?lb = JStr p \<longrightarrow>
           bcrypt_compare p (?h x) = bcrypt_compare p (u_password x)"
    by (simp add: list_all_iff)
  note th = password_hash_not_serialized [where us = "[alice, bob]" and i = aliceId
      and d = "select_default alice" and l = exLib and e = exEnv and clock = 1000
      and new_id = carolId and salt = 5 and errors = "[]" and rb = carolBody and lb = ?lb
      and req = GET and st = exStore and a = aliceAuth and h = ?h]
  note th2 = password_hash_not_serialized [where us = "[alice, bob]"
      and mail = "''bob@example.com''" and uname = "''robert''" and d = "select_default bob"
      and l = exLib and e = exEnv and clock = 1000 and new_id = carolId and salt = 5
      and ?salt' = 6 and errors = "[]" and rb = carolBody and h = ?k and st = exStore
      and a = aliceAuth and req = GET]
  have p1: "d_password (select_default alice) = None"
    using th byId by blast
  have p2: "d_password (select_default bob) = None"
    using th2 byOr by blast
  have p3: "''password'' \<notin> set (json_keys (body (fst
        (taskRoutes exLib exEnv 1000 carolId exStore aliceAuth GET))))"
    using th noerr by blast
  have tr: "trim (rb_username carolBody) = ''carol''"
    "trim (toLowerCase (rb_email carolBody)) = ''carol@example.com''"
    by (simp_all add: carolBody_def string_defs)
  have p4: "field ''user'' (body (fst (register exLib exEnv 1000 carolId 5 [alice, bob] [] carolBody)))
       = Some (JObj [(''id'', JStr carolId), (''username'', JStr ''carol''),
                     (''email'', JStr ''carol@example.com'')])"
    using th reg unfolding tr by blast
  have p5: "login exLib exEnv 1000 (rehash ?h [alice, bob]) [] ?lb
              = login exLib exEnv 1000 [alice, bob] [] ?lb"
    using th hyp by blast
  have p6: "fst (register exLib exEnv 1000 carolId 5 (rehash ?k [alice, bob]) [] carolBody)
       = fst (register exLib exEnv 1000 carolId 6 [alice, bob] [] carolBody)"
    using th2 by blast
  have p7: "fst (taskRoutes exLib exEnv 1000 carolId
          (exStore\<lparr>users := rehash ?k (users exStore)\<rparr>) aliceAuth GET)
       = fst (taskRoutes exLib exEnv 1000 carolId exStore aliceAuth GET)"
    using th2 by blast
  show ?thesis
    using byId p1 byOr p2 aliceAuth_passes reg p4 log noerr p3 same_outcome p5 p6 p7
    by blast
qed

end
